theory Spec2Isabelle
  imports Complex_Main
begin

section \<open>The flight control core of the Tello control panel\<close>

text \<open>
  This theory embeds \<^verbatim>\<open>src/drone_controller.py\<close> (class \<^verbatim>\<open>DroneController\<close>).
  Conventions of the embedding:
  \<^item> the controller object is a record; every method takes the record and returns the
    updated record (with the method's return value where it has one);
  \<^item> Python floats (clock readings, the speed multiplier, durations) are real numbers:
    rounding, and multipliers that are infinite or NaN, are outside the model;
    \<^verbatim>\<open>int(x)\<close> is truncation towards zero, and the overflow of the product in
    \<^verbatim>\<open>calculate_rc_values\<close> is the raise of \<open>calculate_rc_values_float\<close>;
  \<^item> every reading of \<^verbatim>\<open>time.time()\<close> is a parameter of the method that reads it;
  \<^item> the vehicle link (\<^verbatim>\<open>djitellopy.Tello\<close>) is external: whether a call to it returns
    or raises is a parameter of the method that makes the call, and every call made is
    appended to the field \<open>trace\<close>, together with what is printed, beeped and scheduled;
  \<^item> the bodies of the deferred tasks (the thread started by \<^verbatim>\<open>takeoff\<close>) are
    operations of their own, run when the task fires.
\<close>

subsection \<open>Data model\<close>

datatype ConnectionStatus = DISCONNECTED | CONNECTING | CONNECTED | ERROR

text \<open>The link handle held in \<^verbatim>\<open>self.tello\<close> (\<open>None\<close> before connecting).\<close>

datatype Tello = Tello

text \<open>
  The bound methods of the link that the controller passes around as
  \<^verbatim>\<open>command_func\<close>.
\<close>

datatype tello_command =
    Tello_move_forward | Tello_move_back | Tello_move_left | Tello_move_right
  | Tello_move_up | Tello_move_down
  | Tello_rotate_clockwise | Tello_rotate_counter_clockwise
  | Tello_takeoff | Tello_land | Tello_flip_forward

text \<open>The dictionary \<^verbatim>\<open>{'left_right': _, 'forward_back': _, 'up_down': _, 'yaw': _}\<close>.\<close>

record rc_values =
  left_right :: int
  forward_back :: int
  up_down :: int
  yaw :: int

text \<open>What a call to the link does: it returns, or raises with a message.\<close>

datatype link_result = Done | Failed string

datatype link_call =
    Link_connect
  | Link_end
  | Get_battery
  | Get_height
  | Get_flight_time
  | Command tello_command "int list"
  | Send_rc_control int int int int

text \<open>
  The printed lines, one constructor for each \<^verbatim>\<open>print\<close> of the class, carrying the
  values that the f-string interpolates (the boolean of the speed indicator is
  \<^verbatim>\<open>speed_multiplier > 1.0\<close>).
\<close>

datatype message =
    Msg_audio_not_available
  | Msg_connected
  | Msg_connection_failed string
  | Msg_battery int
  | Msg_speed_boost real
  | Msg_normal_speed
  | Msg_cleared nat
  | Msg_no_commands_to_clear
  | Msg_drone_ready
  | Msg_imu_error
  | Msg_command_failed string
  | Msg_cannot_execute ConnectionStatus
  | Msg_requires_takeoff
  | Msg_imu_stabilizing real
  | Msg_command bool tello_command int
  | Msg_rc_pulse bool tello_command int
  | Msg_rc_movement_failed string
  | Msg_already_flying
  | Msg_attempting_takeoff
  | Msg_takeoff_successful real
  | Msg_imu_stabilized
  | Msg_takeoff_failed
  | Msg_already_on_ground
  | Msg_landing
  | Msg_landing_successful
  | Msg_landing_failed
  | Msg_flip_requires_takeoff
  | Msg_flip_imu_wait
  | Msg_performing_flip
  | Msg_start_rc_called bool ConnectionStatus bool
  | Msg_rc_activated
  | Msg_rc_already_active
  | Msg_rc_not_started
  | Msg_rc_deactivated
  | Msg_update_rc_called bool nat
  | Msg_rc_skipped bool bool ConnectionStatus
  | Msg_rc_active bool rc_values
  | Msg_rc_control_failed string

text \<open>
  The observable effects, in the order in which they happen: a call to the link
  (recorded whether it returns or raises), a printed line, a beep (frequency, duration),
  the timer that zeroes the fallback pulse after the given duration, and the start of
  the thread \<^verbatim>\<open>notify_imu_ready\<close>.
\<close>

datatype event =
    Link link_call
  | Print message
  | Beep int real
  | Timer_rc_stop real
  | Thread_notify_imu_ready

text \<open>
  A queued command: the queue is never populated by the class itself. The field
  \<^verbatim>\<open>rc_thread\<close>, which is \<open>None\<close> throughout, is left out of the record, and the event
  \<^verbatim>\<open>rc_stop_event\<close> is the boolean that says whether it is set.
\<close>

type_synonym queued_command = "tello_command \<times> int list"

record DroneController =
  tello :: "Tello option"
  connection_status :: ConnectionStatus
  battery_level :: int
  height :: int
  flight_time :: int
  is_flying :: bool
  imu_ready :: bool
  takeoff_time :: real
  imu_stabilization_delay :: real
  last_command_time :: real
  command_cooldown :: real
  command_queue :: "queued_command list"
  speed_multiplier :: real
  last_ready_beep :: real
  ready_beep_interval :: real
  rc_mode_active :: bool
  rc_stop_event :: bool
  current_rc_values :: rc_values
  audio_enabled :: bool
  trace :: "event list"

text \<open>The exceptions that leave a method of the controller.\<close>

datatype exn = AttributeError | OverflowError

subsection \<open>Helpers of the embedding\<close>

definition emit :: "event \<Rightarrow> DroneController \<Rightarrow> DroneController" where
  "emit e s = s\<lparr>trace := trace s @ [e]\<rparr>"

text \<open>Python's \<^verbatim>\<open>int(x)\<close> on a float: truncation towards zero.\<close>

definition py_int :: "real \<Rightarrow> int" where
  "py_int x = (if 0 \<le> x then \<lfloor>x\<rfloor> else \<lceil>x\<rceil>)"

text \<open>
  Where the reals leave the floats: a product of two floats whose exact value \<open>x\<close> has
  a magnitude of at least \<open>2 ^ 1024 - 2 ^ 970\<close> is infinite as a float (IEEE double,
  round to nearest), and \<^verbatim>\<open>int\<close> of an infinite float raises \<^verbatim>\<open>OverflowError\<close>.
\<close>

definition float_overflows :: "real \<Rightarrow> bool" where
  "float_overflows x = (2 ^ 1024 - 2 ^ 970 \<le> \<bar>x\<bar>)"

text \<open>Python's \<^verbatim>\<open>p in e\<close> on strings: \<open>p\<close> occurs in \<open>e\<close> as a contiguous run.\<close>

fun str_contains :: "string \<Rightarrow> string \<Rightarrow> bool" where
  "str_contains p [] = (p = [])"
| "str_contains p (c # cs) = (take (length p) (c # cs) = p \<or> str_contains p cs)"

text \<open>The key codes of pygame that the class reads (the ASCII codes of the letters).\<close>

definition K_a :: int where "K_a = 97"
definition K_d :: int where "K_d = 100"
definition K_e :: int where "K_e = 101"
definition K_i :: int where "K_i = 105"
definition K_k :: int where "K_k = 107"
definition K_q :: int where "K_q = 113"
definition K_s :: int where "K_s = 115"
definition K_w :: int where "K_w = 119"

definition zero_rc :: rc_values where
  "zero_rc = \<lparr>left_right = 0, forward_back = 0, up_down = 0, yaw = 0\<rparr>"

subsection \<open>Construction\<close>

text \<open>
  \<^verbatim>\<open>__init__\<close>; the parameter says whether \<^verbatim>\<open>pygame.mixer.init\<close> returned.
\<close>

definition init :: "bool \<Rightarrow> DroneController" where
  "init mixer_ok =
     \<lparr>tello = None,
      connection_status = DISCONNECTED,
      battery_level = 0,
      height = 0,
      flight_time = 0,
      is_flying = False,
      imu_ready = False,
      takeoff_time = 0,
      imu_stabilization_delay = 3,
      last_command_time = 0,
      command_cooldown = 1 / 2,
      command_queue = [],
      speed_multiplier = 1,
      last_ready_beep = 0,
      ready_beep_interval = 5,
      rc_mode_active = False,
      rc_stop_event = False,
      current_rc_values = zero_rc,
      audio_enabled = mixer_ok,
      trace = (if mixer_ok then [] else [Print Msg_audio_not_available])\<rparr>"

subsection \<open>Speed and queue utilities, notifications\<close>

definition set_speed_multiplier :: "real \<Rightarrow> DroneController \<Rightarrow> DroneController" where
  "set_speed_multiplier multiplier s =
     (let s1 = s\<lparr>speed_multiplier := multiplier\<rparr>
      in if multiplier > 1 then emit (Print (Msg_speed_boost multiplier)) s1
         else emit (Print Msg_normal_speed) s1)"

definition play_beep :: "int \<Rightarrow> real \<Rightarrow> DroneController \<Rightarrow> DroneController" where
  "play_beep frequency duration s =
     (if \<not> audio_enabled s then s else emit (Beep frequency duration) s)"

text \<open>
  \<^verbatim>\<open>clear_command_queue\<close>: the queue is cleared first, and the line printed after it
  interpolates \<^verbatim>\<open>len(self.command_queue)\<close> of the queue as it is then.
\<close>

definition clear_command_queue :: "DroneController \<Rightarrow> DroneController" where
  "clear_command_queue s =
     (if length (command_queue s) > 0 then
        let s1 = s\<lparr>command_queue := []\<rparr>;
            s2 = emit (Print (Msg_cleared (length (command_queue s1)))) s1
        in play_beep 800 (1 / 10) s2
      else emit (Print Msg_no_commands_to_clear) s)"

definition check_ready_beep :: "real \<Rightarrow> DroneController \<Rightarrow> DroneController" where
  "check_ready_beep current_time s =
     (if is_flying s \<and> imu_ready s \<and> length (command_queue s) = 0
         \<and> current_time - last_ready_beep s \<ge> ready_beep_interval s
      then emit (Print Msg_drone_ready)
             ((play_beep 1200 (1 / 10) s)\<lparr>last_ready_beep := current_time\<rparr>)
      else s)"

subsection \<open>Command throttle and dispatcher\<close>

definition can_execute_command :: "real \<Rightarrow> DroneController \<Rightarrow> bool \<times> DroneController" where
  "can_execute_command current_time s =
     (if current_time - last_command_time s \<ge> command_cooldown s
      then (True, s\<lparr>last_command_time := current_time\<rparr>)
      else (False, s))"

text \<open>
  \<^verbatim>\<open>execute_command(command_func, *args)\<close>: \<open>res\<close> is what the call
  \<^verbatim>\<open>command_func(*args)\<close> does, if it is made.
\<close>

definition execute_command ::
  "tello_command \<Rightarrow> int list \<Rightarrow> real \<Rightarrow> link_result \<Rightarrow> DroneController
     \<Rightarrow> bool \<times> DroneController" where
  "execute_command command_func args current_time res s =
     (if tello s \<noteq> None \<and> connection_status s = CONNECTED then
        (let (ok, s1) = can_execute_command current_time s in
         if ok then
           (let s2 = emit (Link (Command command_func args)) s1 in
            case res of
              Done \<Rightarrow> (True, s2)
            | Failed error_msg \<Rightarrow>
                (False,
                 if str_contains ''No valid imu'' error_msg
                 then emit (Print Msg_imu_error) s2
                 else emit (Print (Msg_command_failed error_msg)) s2))
         else (False, s1))
      else if connection_status s \<noteq> CONNECTED
      then (False, emit (Print (Msg_cannot_execute (connection_status s))) s)
      else (False, s))"

definition check_imu_ready :: "real \<Rightarrow> DroneController \<Rightarrow> bool \<times> DroneController" where
  "check_imu_ready current_time s =
     (if \<not> is_flying s then (False, s)
      else
        (let s1 = (if current_time - takeoff_time s \<ge> imu_stabilization_delay s
                   then s\<lparr>imu_ready := True\<rparr> else s)
         in (imu_ready s1, s1)))"

subsection \<open>Movement dispatch with the fallback pulse\<close>

text \<open>
  \<^verbatim>\<open>execute_rc_movement(command_func, *args)\<close>: the chain of comparisons of
  \<^verbatim>\<open>command_func\<close> with the eight movement methods of the link is the case
  distinction \<open>pulse\<close>; for any other method nothing is sent, and the timer is started
  all the same. \<open>res\<close> is what \<^verbatim>\<open>send_rc_control\<close> does, if it is called. The
  arguments are not read.
\<close>

definition execute_rc_movement ::
  "tello_command \<Rightarrow> real list \<Rightarrow> link_result \<Rightarrow> DroneController
     \<Rightarrow> bool \<times> DroneController" where
  "execute_rc_movement command_func args res s =
     (if tello s = None \<or> connection_status s \<noteq> CONNECTED then (False, s)
      else
        (let base_rc_speed = (50 :: real);
             rc_speed = min (py_int (base_rc_speed * speed_multiplier s)) 100;
             speed_indicator = (speed_multiplier s > 1);
             duration = (if speed_multiplier s > 1 then 4 / 10 else 3 / 10 :: real);
             pulse =
               (case command_func of
                  Tello_move_forward \<Rightarrow> Some (Send_rc_control 0 rc_speed 0 0)
                | Tello_move_back \<Rightarrow> Some (Send_rc_control 0 (- rc_speed) 0 0)
                | Tello_move_left \<Rightarrow> Some (Send_rc_control (- rc_speed) 0 0 0)
                | Tello_move_right \<Rightarrow> Some (Send_rc_control rc_speed 0 0 0)
                | Tello_move_up \<Rightarrow> Some (Send_rc_control 0 0 rc_speed 0)
                | Tello_move_down \<Rightarrow> Some (Send_rc_control 0 0 (- rc_speed) 0)
                | Tello_rotate_clockwise \<Rightarrow> Some (Send_rc_control 0 0 0 rc_speed)
                | Tello_rotate_counter_clockwise \<Rightarrow> Some (Send_rc_control 0 0 0 (- rc_speed))
                | _ \<Rightarrow> None)
         in case pulse of
              None \<Rightarrow> (True, emit (Timer_rc_stop duration) s)
            | Some call \<Rightarrow>
                (case res of
                   Done \<Rightarrow>
                     (True,
                      emit (Timer_rc_stop duration)
                        (emit (Print (Msg_rc_pulse speed_indicator command_func rc_speed))
                           (emit (Link call) s)))
                 | Failed e \<Rightarrow>
                     (False, emit (Print (Msg_rc_movement_failed e)) (emit (Link call) s)))))"

text \<open>
  \<^verbatim>\<open>execute_movement_command(command_func, *args)\<close>, called with numbers as
  arguments (every caller passes one base magnitude). \<open>t_imu\<close> is the clock read by
  \<^verbatim>\<open>check_imu_ready\<close>; \<open>t_next\<close> is the next reading, the one of the remaining-time
  message on the fallback path and the one of \<^verbatim>\<open>can_execute_command\<close> on the other.
\<close>

definition execute_movement_command ::
  "tello_command \<Rightarrow> real list \<Rightarrow> real \<Rightarrow> real \<Rightarrow> link_result \<Rightarrow> DroneController
     \<Rightarrow> bool \<times> DroneController" where
  "execute_movement_command command_func args t_imu t_next res s =
     (if \<not> is_flying s then (False, emit (Print Msg_requires_takeoff) s)
      else
        (let (ready, s1) = check_imu_ready t_imu s in
         if \<not> ready then
           (let remaining_time = imu_stabilization_delay s1 - (t_next - takeoff_time s1)
            in execute_rc_movement command_func args res
                 (emit (Print (Msg_imu_stabilizing remaining_time)) s1))
         else
           (let modified_args = map (\<lambda>arg. py_int (arg * speed_multiplier s1)) args;
                speed_indicator = (speed_multiplier s1 > 1);
                s2 = (if modified_args \<noteq> []
                      then emit (Print (Msg_command speed_indicator command_func
                                          (hd modified_args))) s1
                      else s1)
            in execute_command command_func modified_args t_next res s2)))"

subsection \<open>Takeoff and landing\<close>

text \<open>
  \<^verbatim>\<open>takeoff\<close>: \<open>t_cmd\<close> is the clock read by \<^verbatim>\<open>can_execute_command\<close>, \<open>t_stamp\<close>
  the one stored in \<^verbatim>\<open>takeoff_time\<close> after the link's takeoff has returned. Reading
  \<^verbatim>\<open>self.tello.takeoff\<close> without a link handle raises.
\<close>

definition takeoff ::
  "real \<Rightarrow> real \<Rightarrow> link_result \<Rightarrow> DroneController \<Rightarrow> (exn + unit) \<times> DroneController" where
  "takeoff t_cmd t_stamp res s =
     (if is_flying s then (Inr (), emit (Print Msg_already_flying) s)
      else
        (let s1 = emit (Print Msg_attempting_takeoff) s in
         if tello s1 = None then (Inl AttributeError, s1)
         else
           (let (ok, s2) = execute_command Tello_takeoff [] t_cmd res s1 in
            if ok then
              (let s3 = s2\<lparr>is_flying := True, imu_ready := False, takeoff_time := t_stamp\<rparr>
               in (Inr (),
                   emit Thread_notify_imu_ready
                     (emit (Print (Msg_takeoff_successful (imu_stabilization_delay s3))) s3)))
            else (Inr (), emit (Print Msg_takeoff_failed) s2))))"

text \<open>
  The body of the thread started by \<^verbatim>\<open>takeoff\<close>, after its sleep of
  \<^verbatim>\<open>imu_stabilization_delay\<close> seconds.
\<close>

definition notify_imu_ready :: "DroneController \<Rightarrow> DroneController" where
  "notify_imu_ready s =
     (if is_flying s then emit (Print Msg_imu_stabilized) (s\<lparr>imu_ready := True\<rparr>) else s)"

definition land ::
  "real \<Rightarrow> link_result \<Rightarrow> DroneController \<Rightarrow> (exn + unit) \<times> DroneController" where
  "land t_cmd res s =
     (if \<not> is_flying s then (Inr (), emit (Print Msg_already_on_ground) s)
      else
        (let s1 = emit (Print Msg_landing) s in
         if tello s1 = None then (Inl AttributeError, s1)
         else
           (let (ok, s2) = execute_command Tello_land [] t_cmd res s1 in
            if ok then
              (Inr (),
               emit (Print Msg_landing_successful) (s2\<lparr>is_flying := False, imu_ready := False\<rparr>))
            else (Inr (), emit (Print Msg_landing_failed) s2))))"

subsection \<open>The movement operations\<close>

text \<open>
  The eight operations read the method of the link first (which raises without a link
  handle), pass it on with a base magnitude, and drop the result. The magnitudes
  \<^verbatim>\<open>REAL_MOVEMENT_SPEED\<close>, \<^verbatim>\<open>REAL_VERTICAL_SPEED\<close> and \<^verbatim>\<open>REAL_ROTATION_SPEED\<close> come from
  the module \<^verbatim>\<open>global_variables\<close> and are parameters here.
\<close>

definition movement ::
  "tello_command \<Rightarrow> real \<Rightarrow> real \<Rightarrow> real \<Rightarrow> link_result \<Rightarrow> DroneController
     \<Rightarrow> (exn + unit) \<times> DroneController" where
  "movement command_func magnitude t_imu t_next res s =
     (if tello s = None then (Inl AttributeError, s)
      else (Inr (), snd (execute_movement_command command_func [magnitude] t_imu t_next res s)))"

definition move_forward where
  "move_forward REAL_MOVEMENT_SPEED = movement Tello_move_forward REAL_MOVEMENT_SPEED"

definition move_back where
  "move_back REAL_MOVEMENT_SPEED = movement Tello_move_back REAL_MOVEMENT_SPEED"

definition move_left where
  "move_left REAL_MOVEMENT_SPEED = movement Tello_move_left REAL_MOVEMENT_SPEED"

definition move_right where
  "move_right REAL_MOVEMENT_SPEED = movement Tello_move_right REAL_MOVEMENT_SPEED"

definition move_up where
  "move_up REAL_VERTICAL_SPEED = movement Tello_move_up REAL_VERTICAL_SPEED"

definition move_down where
  "move_down REAL_VERTICAL_SPEED = movement Tello_move_down REAL_VERTICAL_SPEED"

definition rotate_clockwise where
  "rotate_clockwise REAL_ROTATION_SPEED = movement Tello_rotate_clockwise REAL_ROTATION_SPEED"

definition rotate_counter_clockwise where
  "rotate_counter_clockwise REAL_ROTATION_SPEED =
     movement Tello_rotate_counter_clockwise REAL_ROTATION_SPEED"

definition flip_forward ::
  "real \<Rightarrow> link_result \<Rightarrow> DroneController \<Rightarrow> (exn + bool) \<times> DroneController" where
  "flip_forward t_cmd res s =
     (if \<not> is_flying s then (Inr False, emit (Print Msg_flip_requires_takeoff) s)
      else if \<not> imu_ready s then (Inr False, emit (Print Msg_flip_imu_wait) s)
      else
        (let s1 = emit (Print Msg_performing_flip) s in
         if tello s1 = None then (Inl AttributeError, s1)
         else
           (let (ok, s2) = execute_command Tello_flip_forward [] t_cmd res s1
            in (Inr ok, s2))))"

definition emergency_stop :: "link_result \<Rightarrow> DroneController \<Rightarrow> DroneController" where
  "emergency_stop res s =
     (if tello s \<noteq> None \<and> connection_status s = CONNECTED
      then emit (Link (Send_rc_control 0 0 0 0)) s
      else s)"

subsection \<open>Continuous control mode\<close>

definition start_rc_mode :: "DroneController \<Rightarrow> DroneController" where
  "start_rc_mode s =
     (let s1 = emit (Print (Msg_start_rc_called (tello s \<noteq> None) (connection_status s)
                              (rc_mode_active s))) s
      in if \<not> rc_mode_active s1 \<and> tello s1 \<noteq> None \<and> connection_status s1 = CONNECTED
         then emit (Print Msg_rc_activated) (s1\<lparr>rc_mode_active := True, rc_stop_event := False\<rparr>)
         else if rc_mode_active s1 then emit (Print Msg_rc_already_active) s1
         else emit (Print Msg_rc_not_started) s1)"

text \<open>\<open>res\<close> is what the zeroing \<^verbatim>\<open>send_rc_control\<close> does; a failure is swallowed.\<close>

definition stop_rc_mode :: "link_result \<Rightarrow> DroneController \<Rightarrow> DroneController" where
  "stop_rc_mode res s =
     (if rc_mode_active s then
        (let s1 = s\<lparr>rc_mode_active := False, rc_stop_event := True\<rparr>;
             s2 = (if tello s1 \<noteq> None \<and> connection_status s1 = CONNECTED
                   then emit (Link (Send_rc_control 0 0 0 0)) s1
                   else s1)
         in emit (Print Msg_rc_deactivated) (s2\<lparr>current_rc_values := zero_rc\<rparr>))
      else s)"

definition calculate_rc_values :: "int set \<Rightarrow> DroneController \<Rightarrow> rc_values" where
  "calculate_rc_values active_keys s =
     (let base_speed = (50 :: real);
          rc_speed = min (py_int (base_speed * speed_multiplier s)) 100;
          lr0 = (0 :: int);
          fb0 = (0 :: int);
          ud0 = (0 :: int);
          yaw0 = (0 :: int);
          lr1 = (if K_a \<in> active_keys then lr0 - rc_speed else lr0);
          lr2 = (if K_d \<in> active_keys then lr1 + rc_speed else lr1);
          fb1 = (if K_w \<in> active_keys then fb0 + rc_speed else fb0);
          fb2 = (if K_s \<in> active_keys then fb1 - rc_speed else fb1);
          ud1 = (if K_i \<in> active_keys then ud0 + rc_speed else ud0);
          ud2 = (if K_k \<in> active_keys then ud1 - rc_speed else ud1);
          yaw1 = (if K_q \<in> active_keys then yaw0 - rc_speed else yaw0);
          yaw2 = (if K_e \<in> active_keys then yaw1 + rc_speed else yaw1)
      in \<lparr>left_right = lr2, forward_back = fb2, up_down = ud2, yaw = yaw2\<rparr>)"

text \<open>
  \<^verbatim>\<open>calculate_rc_values\<close> with the exception of its first statement: when the product
  \<^verbatim>\<open>base_speed * self.speed_multiplier\<close> is infinite as a float, \<^verbatim>\<open>int\<close> raises
  before any key is read and no vector is returned; it is not caught in the method.
\<close>

definition calculate_rc_values_float :: "int set \<Rightarrow> DroneController \<Rightarrow> exn + rc_values" where
  "calculate_rc_values_float active_keys s =
     (if float_overflows (50 * speed_multiplier s) then Inl OverflowError
      else Inr (calculate_rc_values active_keys s))"

text \<open>
  \<^verbatim>\<open>update_rc_control(active_keys)\<close>: \<open>res\<close> is what \<^verbatim>\<open>send_rc_control\<close> does, if
  it is called. The assignment to \<^verbatim>\<open>current_rc_values\<close> precedes the \<^verbatim>\<open>try\<close>.
\<close>

definition update_rc_control ::
  "int set \<Rightarrow> link_result \<Rightarrow> DroneController \<Rightarrow> DroneController" where
  "update_rc_control active_keys res s =
     (let s1 = emit (Print (Msg_update_rc_called (rc_mode_active s) (card active_keys))) s
      in if \<not> rc_mode_active s1 \<or> tello s1 = None \<or> connection_status s1 \<noteq> CONNECTED
         then emit (Print (Msg_rc_skipped (rc_mode_active s1) (tello s1 \<noteq> None)
                             (connection_status s1))) s1
         else
           (let new_values = calculate_rc_values active_keys s1 in
            if new_values \<noteq> current_rc_values s1 then
              (let s2 = s1\<lparr>current_rc_values := new_values\<rparr>;
                   s3 = emit (Link (Send_rc_control (left_right new_values)
                                      (forward_back new_values) (up_down new_values)
                                      (yaw new_values))) s2
               in case res of
                    Done \<Rightarrow>
                      (if left_right new_values \<noteq> 0 \<or> forward_back new_values \<noteq> 0
                          \<or> up_down new_values \<noteq> 0 \<or> yaw new_values \<noteq> 0
                       then emit (Print (Msg_rc_active (speed_multiplier s3 > 1) new_values)) s3
                       else s3)
                  | Failed e \<Rightarrow> emit (Print (Msg_rc_control_failed e)) s3)
            else s1))"

subsection \<open>Connection manager\<close>

text \<open>
  \<^verbatim>\<open>update_telemetry\<close>: each of the three readings is \<open>None\<close> when the getter raises,
  which ends the method silently with the fields assigned so far.
\<close>

definition update_telemetry ::
  "int option \<Rightarrow> int option \<Rightarrow> int option \<Rightarrow> real \<Rightarrow> DroneController \<Rightarrow> DroneController" where
  "update_telemetry battery hgt flight current_time s =
     (if tello s \<noteq> None \<and> connection_status s = CONNECTED then
        (let s1 = emit (Link Get_battery) s in
         case battery of
           None \<Rightarrow> s1
         | Some b \<Rightarrow>
             (let s2 = emit (Link Get_height) (emit (Print (Msg_battery b)) (s1\<lparr>battery_level := b\<rparr>))
              in case hgt of
                   None \<Rightarrow> s2
                 | Some h \<Rightarrow>
                     (let s3 = emit (Link Get_flight_time) (s2\<lparr>height := h\<rparr>)
                      in case flight of
                           None \<Rightarrow> s3
                         | Some f \<Rightarrow> check_ready_beep current_time (s3\<lparr>flight_time := f\<rparr>))))
      else s)"

text \<open>
  \<^verbatim>\<open>connect\<close>: \<open>ctor\<close> is what the constructor \<^verbatim>\<open>Tello()\<close> does and \<open>res\<close> what the
  link's \<^verbatim>\<open>connect\<close> does; the other parameters are those of \<^verbatim>\<open>update_telemetry\<close>.
\<close>

definition connect ::
  "link_result \<Rightarrow> link_result \<Rightarrow> int option \<Rightarrow> int option \<Rightarrow> int option \<Rightarrow> real
     \<Rightarrow> DroneController \<Rightarrow> bool \<times> DroneController" where
  "connect ctor res battery hgt flight current_time s =
     (let s1 = s\<lparr>connection_status := CONNECTING\<rparr> in
      case ctor of
        Failed e \<Rightarrow> (False, (emit (Print (Msg_connection_failed e)) s1)\<lparr>connection_status := ERROR\<rparr>)
      | Done \<Rightarrow>
          (let s2 = emit (Link Link_connect) (s1\<lparr>tello := Some Tello\<rparr>) in
           case res of
             Failed e \<Rightarrow>
               (False, (emit (Print (Msg_connection_failed e)) s2)\<lparr>connection_status := ERROR\<rparr>)
           | Done \<Rightarrow>
               (True,
                emit (Print Msg_connected)
                  (update_telemetry battery hgt flight current_time
                     (s2\<lparr>connection_status := CONNECTED\<rparr>)))))"

text \<open>
  \<^verbatim>\<open>disconnect\<close>: \<open>rc_res\<close>, \<open>land_res\<close> and \<open>end_res\<close> are what the zeroing
  \<^verbatim>\<open>send_rc_control\<close>, the link's \<^verbatim>\<open>land\<close> and its \<^verbatim>\<open>end\<close> do, if they are called;
  a failing \<^verbatim>\<open>land\<close> skips \<^verbatim>\<open>end\<close>, and every failure is swallowed.
\<close>

definition disconnect ::
  "link_result \<Rightarrow> link_result \<Rightarrow> link_result \<Rightarrow> DroneController \<Rightarrow> DroneController" where
  "disconnect rc_res land_res end_res s =
     (let s1 = (if rc_mode_active s then stop_rc_mode rc_res s else s);
          s2 = (if tello s1 \<noteq> None then
                  (if is_flying s1 then
                     (let s_land = emit (Link (Command Tello_land [])) s1 in
                      case land_res of
                        Done \<Rightarrow> emit (Link Link_end) s_land
                      | Failed e \<Rightarrow> s_land)
                   else emit (Link Link_end) s1)
                else s1)
      in s2\<lparr>connection_status := DISCONNECTED, tello := None\<rparr>)"

subsection \<open>Notions used in the statements\<close>

text \<open>The calls made to the link so far, in order.\<close>

definition link_calls :: "DroneController \<Rightarrow> link_call list" where
  "link_calls s = concat (map (\<lambda>e. case e of Link c \<Rightarrow> [c] | _ \<Rightarrow> []) (trace s))"

text \<open>The eight discrete movement primitives of the link.\<close>

fun is_movement :: "tello_command \<Rightarrow> bool" where
  "is_movement Tello_takeoff = False"
| "is_movement Tello_land = False"
| "is_movement Tello_flip_forward = False"
| "is_movement _ = True"

text \<open>
  The continuous axis of each movement primitive, with the sign of its direction:
  forward and back on \<open>forward_back\<close>, right and left on \<open>left_right\<close>, up and down on
  \<open>up_down\<close>, clockwise and counter-clockwise on \<open>yaw\<close>.
\<close>

fun pulse_vector :: "tello_command \<Rightarrow> int \<Rightarrow> rc_values" where
  "pulse_vector Tello_move_forward v = zero_rc\<lparr>forward_back := v\<rparr>"
| "pulse_vector Tello_move_back v = zero_rc\<lparr>forward_back := - v\<rparr>"
| "pulse_vector Tello_move_right v = zero_rc\<lparr>left_right := v\<rparr>"
| "pulse_vector Tello_move_left v = zero_rc\<lparr>left_right := - v\<rparr>"
| "pulse_vector Tello_move_up v = zero_rc\<lparr>up_down := v\<rparr>"
| "pulse_vector Tello_move_down v = zero_rc\<lparr>up_down := - v\<rparr>"
| "pulse_vector Tello_rotate_clockwise v = zero_rc\<lparr>yaw := v\<rparr>"
| "pulse_vector Tello_rotate_counter_clockwise v = zero_rc\<lparr>yaw := - v\<rparr>"
| "pulse_vector _ v = zero_rc"

definition send_vector :: "rc_values \<Rightarrow> link_call" where
  "send_vector v = Send_rc_control (left_right v) (forward_back v) (up_down v) (yaw v)"

text \<open>The range of the components of a control vector.\<close>

definition rc_in_range :: "rc_values \<Rightarrow> bool" where
  "rc_in_range v =
     (- 100 \<le> left_right v \<and> left_right v \<le> 100
      \<and> - 100 \<le> forward_back v \<and> forward_back v \<le> 100
      \<and> - 100 \<le> up_down v \<and> up_down v \<le> 100
      \<and> - 100 \<le> yaw v \<and> yaw v \<le> 100)"

text \<open>
  A run of calls of \<^verbatim>\<open>can_execute_command\<close> at the given clock readings: the
  history of readings and results, and the controller afterwards.
\<close>

fun run_can_execute ::
  "real list \<Rightarrow> DroneController \<Rightarrow> (real \<times> bool) list \<times> DroneController" where
  "run_can_execute [] s = ([], s)"
| "run_can_execute (t # ts) s =
     (let (ok, s1) = can_execute_command t s;
          (h, s2) = run_can_execute ts s1
      in ((t, ok) # h, s2))"

text \<open>
  The reading of the last call of a history that returned true (\<open>t0\<close> when there is
  none).
\<close>

definition last_true_time :: "real \<Rightarrow> (real \<times> bool) list \<Rightarrow> real" where
  "last_true_time t0 h = last (t0 # map fst (filter snd h))"

text \<open>The invariant of the flight state: not flying means the IMU is not ready.\<close>

definition imu_invariant :: "DroneController \<Rightarrow> bool" where
  "imu_invariant s = (is_flying s \<or> \<not> imu_ready s)"

text \<open>
  The operations of the controller with their parameters, and the controller after one
  of them (whatever it returns or raises).
\<close>

datatype operation =
    Op_connect link_result link_result "int option" "int option" "int option" real
  | Op_disconnect link_result link_result link_result
  | Op_update_telemetry "int option" "int option" "int option" real
  | Op_set_speed_multiplier real
  | Op_clear_command_queue
  | Op_play_beep int real
  | Op_check_ready_beep real
  | Op_can_execute_command real
  | Op_execute_command tello_command "int list" real link_result
  | Op_check_imu_ready real
  | Op_execute_movement_command tello_command "real list" real real link_result
  | Op_execute_rc_movement tello_command "real list" link_result
  | Op_takeoff real real link_result
  | Op_notify_imu_ready
  | Op_land real link_result
  | Op_move_forward real real real link_result
  | Op_move_back real real real link_result
  | Op_move_left real real real link_result
  | Op_move_right real real real link_result
  | Op_move_up real real real link_result
  | Op_move_down real real real link_result
  | Op_rotate_clockwise real real real link_result
  | Op_rotate_counter_clockwise real real real link_result
  | Op_flip_forward real link_result
  | Op_emergency_stop link_result
  | Op_start_rc_mode
  | Op_stop_rc_mode link_result
  | Op_update_rc_control "int set" link_result

fun perform :: "operation \<Rightarrow> DroneController \<Rightarrow> DroneController" where
  "perform (Op_connect ctor res b h f t) s = snd (connect ctor res b h f t s)"
| "perform (Op_disconnect rc_res land_res end_res) s = disconnect rc_res land_res end_res s"
| "perform (Op_update_telemetry b h f t) s = update_telemetry b h f t s"
| "perform (Op_set_speed_multiplier m) s = set_speed_multiplier m s"
| "perform Op_clear_command_queue s = clear_command_queue s"
| "perform (Op_play_beep f d) s = play_beep f d s"
| "perform (Op_check_ready_beep t) s = check_ready_beep t s"
| "perform (Op_can_execute_command t) s = snd (can_execute_command t s)"
| "perform (Op_execute_command c args t res) s = snd (execute_command c args t res s)"
| "perform (Op_check_imu_ready t) s = snd (check_imu_ready t s)"
| "perform (Op_execute_movement_command c args t t' res) s =
     snd (execute_movement_command c args t t' res s)"
| "perform (Op_execute_rc_movement c args res) s = snd (execute_rc_movement c args res s)"
| "perform (Op_takeoff t t' res) s = snd (takeoff t t' res s)"
| "perform Op_notify_imu_ready s = notify_imu_ready s"
| "perform (Op_land t res) s = snd (land t res s)"
| "perform (Op_move_forward m t t' res) s = snd (move_forward m t t' res s)"
| "perform (Op_move_back m t t' res) s = snd (move_back m t t' res s)"
| "perform (Op_move_left m t t' res) s = snd (move_left m t t' res s)"
| "perform (Op_move_right m t t' res) s = snd (move_right m t t' res s)"
| "perform (Op_move_up m t t' res) s = snd (move_up m t t' res s)"
| "perform (Op_move_down m t t' res) s = snd (move_down m t t' res s)"
| "perform (Op_rotate_clockwise m t t' res) s = snd (rotate_clockwise m t t' res s)"
| "perform (Op_rotate_counter_clockwise m t t' res) s =
     snd (rotate_counter_clockwise m t t' res s)"
| "perform (Op_flip_forward t res) s = snd (flip_forward t res s)"
| "perform (Op_emergency_stop res) s = emergency_stop res s"
| "perform Op_start_rc_mode s = start_rc_mode s"
| "perform (Op_stop_rc_mode res) s = stop_rc_mode res s"
| "perform (Op_update_rc_control keys res) s = update_rc_control keys res s"

text \<open>The controller after a sequence of operations.\<close>

definition perform_all :: "operation list \<Rightarrow> DroneController \<Rightarrow> DroneController" where
  "perform_all ops s = foldl (\<lambda>s' op. perform op s') s ops"

text \<open>
  Example controllers for the concrete instances: a controller that has connected (at
  clock reading 1000, battery 87), and the same after a takeoff whose throttle check
  read the clock at 1000 and whose stamp read it at 1005.
\<close>

definition example_connected :: DroneController where
  "example_connected = snd (connect Done Done (Some 87) (Some 0) (Some 0) 1000 (init True))"

definition example_flying :: DroneController where
  "example_flying = snd (takeoff 1000 1005 Done example_connected)"

text \<open>The connected example with continuous control started.\<close>

definition example_rc :: DroneController where
  "example_rc = start_rc_mode example_connected"

text \<open>
  How the two flags of the flight state may change in one operation: not at all, or
  \<open>imu_ready\<close> is set while flying before and after, or \<open>imu_ready\<close> is false
  afterwards.
\<close>

definition flags_step :: "DroneController \<Rightarrow> DroneController \<Rightarrow> bool" where
  "flags_step s s' =
     ((is_flying s' = is_flying s \<and> imu_ready s' = imu_ready s)
      \<or> (is_flying s \<and> is_flying s' \<and> imu_ready s')
      \<or> \<not> imu_ready s')"

text \<open>
  More example controllers. After the takeoff of \<open>example_flying\<close>: a
  \<^verbatim>\<open>move_forward\<close> inside the stabilization window, and a second one after it. A second
  \<^verbatim>\<open>connect\<close> while flying, failing in the link's \<^verbatim>\<open>connect\<close>. A landing at 1006
  and a second takeoff stamped at 1008, and then the deferred task of the first takeoff
  (stamped at 1005, so due at 1008) firing.
\<close>

definition example_pulsed :: DroneController where
  "example_pulsed = snd (move_forward 30 (10051 / 10) (10051 / 10) Done example_flying)"

definition example_moved :: DroneController where
  "example_moved = snd (move_forward 30 (10085 / 10) (10085 / 10) Done example_pulsed)"

definition example_error :: DroneController where
  "example_error =
     snd (connect Done (Failed ''unreachable'') None None None 1006 example_flying)"

definition example_landed :: DroneController where
  "example_landed = snd (land 1006 Done example_flying)"

definition example_second_flight :: DroneController where
  "example_second_flight = snd (takeoff 1007 1008 Done example_landed)"

definition example_stale :: DroneController where
  "example_stale = notify_imu_ready example_second_flight"

section \<open>Properties\<close>

subsection \<open>Facts about the helpers\<close>

lemma emit_fields [simp]:
  "tello (emit e s) = tello s"
  "connection_status (emit e s) = connection_status s"
  "battery_level (emit e s) = battery_level s"
  "height (emit e s) = height s"
  "flight_time (emit e s) = flight_time s"
  "is_flying (emit e s) = is_flying s"
  "imu_ready (emit e s) = imu_ready s"
  "takeoff_time (emit e s) = takeoff_time s"
  "imu_stabilization_delay (emit e s) = imu_stabilization_delay s"
  "last_command_time (emit e s) = last_command_time s"
  "command_cooldown (emit e s) = command_cooldown s"
  "command_queue (emit e s) = command_queue s"
  "speed_multiplier (emit e s) = speed_multiplier s"
  "last_ready_beep (emit e s) = last_ready_beep s"
  "ready_beep_interval (emit e s) = ready_beep_interval s"
  "rc_mode_active (emit e s) = rc_mode_active s"
  "rc_stop_event (emit e s) = rc_stop_event s"
  "current_rc_values (emit e s) = current_rc_values s"
  "audio_enabled (emit e s) = audio_enabled s"
  "trace (emit e s) = trace s @ [e]"
  by (simp_all add: emit_def)

lemma link_calls_emit [simp]:
  "link_calls (emit (Link c) s) = link_calls s @ [c]"
  "link_calls (emit (Print m) s) = link_calls s"
  "link_calls (emit (Beep f d) s) = link_calls s"
  "link_calls (emit (Timer_rc_stop d) s) = link_calls s"
  "link_calls (emit Thread_notify_imu_ready s) = link_calls s"
  by (simp_all add: link_calls_def)

lemma link_calls_update [simp]:
  "link_calls (s\<lparr>imu_ready := b\<rparr>) = link_calls s"
  "link_calls (s\<lparr>last_command_time := t\<rparr>) = link_calls s"
  "link_calls (s\<lparr>current_rc_values := v\<rparr>) = link_calls s"
  by (simp_all add: link_calls_def)

lemma py_int_lower: "- 101 < x \<Longrightarrow> - 100 \<le> py_int x"
  by (simp add: py_int_def)

lemma calculate_rc_values_eq:
  "calculate_rc_values keys s =
     (let v = min (py_int (50 * speed_multiplier s)) 100 in
      \<lparr>left_right = (if K_d \<in> keys then v else 0) - (if K_a \<in> keys then v else 0),
       forward_back = (if K_w \<in> keys then v else 0) - (if K_s \<in> keys then v else 0),
       up_down = (if K_i \<in> keys then v else 0) - (if K_k \<in> keys then v else 0),
       yaw = (if K_e \<in> keys then v else 0) - (if K_q \<in> keys then v else 0)\<rparr>)"
  by (simp add: calculate_rc_values_def Let_def)

lemma run_can_execute_last:
  "last_command_time (snd (run_can_execute ts s)) =
     last_true_time (last_command_time s) (fst (run_can_execute ts s))"
proof (induction ts arbitrary: s)
  case Nil
  show ?case by (simp add: last_true_time_def)
next
  case (Cons t ts)
  show ?case
    using Cons.IH [of "snd (can_execute_command t s)"]
    by (auto simp: can_execute_command_def last_true_time_def split: prod.splits if_splits)
qed

lemma speed_multiplier_set [simp]:
  "speed_multiplier (set_speed_multiplier m s) = m"
  by (simp add: set_speed_multiplier_def Let_def)

lemma axis_range:
  fixes v :: int
  assumes "- 100 \<le> v" and "v \<le> 100"
  shows "- 100 \<le> (if p then v else 0) - (if q then v else 0)"
    and "(if p then v else 0) - (if q then v else 0) \<le> 100"
  using assms by auto

lemma py_int_numeral [simp]:
  "py_int (numeral n) = numeral n"
  "py_int (- numeral n) = - numeral n"
  "py_int 0 = 0"
  "py_int 1 = 1"
  by (simp_all add: py_int_def)

lemma key_codes:
  "K_a = 97" "K_d = 100" "K_e = 101" "K_i = 105" "K_k = 107" "K_q = 113" "K_s = 115"
  "K_w = 119"
  by (simp_all add: K_a_def K_d_def K_e_def K_i_def K_k_def K_q_def K_s_def K_w_def)

lemma key_codes_distinct:
  "K_a \<noteq> K_d" "K_d \<noteq> K_a" "K_w \<noteq> K_s" "K_s \<noteq> K_w"
  "K_i \<noteq> K_k" "K_k \<noteq> K_i" "K_q \<noteq> K_e" "K_e \<noteq> K_q"
  "K_a \<noteq> K_w" "K_w \<noteq> K_a" "K_d \<noteq> K_w" "K_w \<noteq> K_d"
  by (simp_all add: K_a_def K_d_def K_w_def K_s_def K_i_def K_k_def K_q_def K_e_def)

lemma example_connected_fields:
  "tello example_connected = Some Tello"
  "connection_status example_connected = CONNECTED"
  "last_command_time example_connected = 0"
  "command_cooldown example_connected = 1 / 2"
  "is_flying example_connected = False"
  "imu_ready example_connected = False"
  "speed_multiplier example_connected = 1"
  "imu_stabilization_delay example_connected = 3"
  "rc_mode_active example_connected = False"
  "current_rc_values example_connected = zero_rc"
  "link_calls example_connected = [Link_connect, Get_battery, Get_height, Get_flight_time]"
  by (simp_all add: example_connected_def connect_def update_telemetry_def check_ready_beep_def
        init_def link_calls_def emit_def)

subsection \<open>The command throttle\<close>

text \<open>
  C2: \<^verbatim>\<open>can_execute_command\<close> returns true exactly when at least
  \<^verbatim>\<open>command_cooldown\<close> (0.5 s from construction) has elapsed since
  \<^verbatim>\<open>last_command_time\<close>, and then stamps the current reading there, leaving the
  controller unchanged otherwise; over any run of calls \<^verbatim>\<open>last_command_time\<close> is the
  reading of the last call that returned true; of two calls less than the cooldown
  apart, the first returning true, the second returns false; and an attempt whose link
  call fails has stamped the time all the same.
\<close>

theorem can_execute_command_throttle:
  "fst (can_execute_command now s) = (command_cooldown s \<le> now - last_command_time s)
   \<and> snd (can_execute_command now s) =
       (if fst (can_execute_command now s) then s\<lparr>last_command_time := now\<rparr> else s)
   \<and> last_command_time (snd (run_can_execute ts s)) =
       last_true_time (last_command_time s) (fst (run_can_execute ts s))
   \<and> (fst (can_execute_command t1 s) \<and> t2 - t1 < command_cooldown s
        \<longrightarrow> \<not> fst (can_execute_command t2 (snd (can_execute_command t1 s))))
   \<and> (tello s \<noteq> None \<and> connection_status s = CONNECTED
        \<and> command_cooldown s \<le> now - last_command_time s
        \<longrightarrow> \<not> fst (execute_command c args now (Failed e) s)
            \<and> last_command_time (snd (execute_command c args now (Failed e) s)) = now)
   \<and> command_cooldown (init a) = 1 / 2"
proof -
  have step: "fst (can_execute_command now s) = (command_cooldown s \<le> now - last_command_time s)"
    by (simp add: can_execute_command_def)
  have stamp: "snd (can_execute_command now s) =
       (if fst (can_execute_command now s) then s\<lparr>last_command_time := now\<rparr> else s)"
    by (simp add: can_execute_command_def)
  have two: "fst (can_execute_command t1 s) \<and> t2 - t1 < command_cooldown s
        \<longrightarrow> \<not> fst (can_execute_command t2 (snd (can_execute_command t1 s)))"
    by (simp add: can_execute_command_def)
  have attempt: "tello s \<noteq> None \<and> connection_status s = CONNECTED
        \<and> command_cooldown s \<le> now - last_command_time s
        \<longrightarrow> \<not> fst (execute_command c args now (Failed e) s)
            \<and> last_command_time (snd (execute_command c args now (Failed e) s)) = now"
    by (simp add: execute_command_def can_execute_command_def Let_def)
  have const: "command_cooldown (init a) = 1 / 2"
    by (simp add: init_def)
  from step stamp run_can_execute_last two attempt const show ?thesis
    by blast
qed

theorem can_execute_command_throttle_witness:
  "fst (can_execute_command 1000 example_connected)
   \<and> \<not> fst (can_execute_command (10003 / 10) (snd (can_execute_command 1000 example_connected)))
   \<and> fst (can_execute_command (10005 / 10) (snd (can_execute_command 1000 example_connected)))
   \<and> last_command_time (snd (run_can_execute [1000, 10003 / 10] example_connected)) = 1000
   \<and> \<not> fst (execute_command Tello_takeoff [] 1000 (Failed ''error'') example_connected)
   \<and> \<not> fst (execute_command Tello_takeoff [] (10003 / 10) Done
              (snd (execute_command Tello_takeoff [] 1000 (Failed ''error'') example_connected)))"
  using can_execute_command_throttle [of 1000 example_connected "[1000, 10003 / 10]" 1000
      "10003 / 10" Tello_takeoff "[]" "''error''" True]
    can_execute_command_throttle [of "10005 / 10" "snd (can_execute_command 1000 example_connected)"
       "[]" 1000 "10003 / 10" Tello_takeoff "[]" "''error''" True]
  by (simp add: example_connected_fields execute_command_def can_execute_command_def
        last_true_time_def)

subsection \<open>The control vector\<close>

text \<open>
  C5: \<^verbatim>\<open>calculate_rc_values\<close> is a function of the held keys and the speed multiplier
  alone: each held key contributes plus or minus \<open>min (int (50 * multiplier)) 100\<close> to
  its axis, so that two opposing keys held together give 0 on their axis; forward alone
  gives \<open>forward_back = 50\<close> at multiplier 1.0 and \<open>100\<close> at multiplier 3.0.
\<close>

theorem calculate_rc_values_keys:
  "calculate_rc_values keys s =
     (let v = min (py_int (50 * speed_multiplier s)) 100 in
      \<lparr>left_right = (if K_d \<in> keys then v else 0) - (if K_a \<in> keys then v else 0),
       forward_back = (if K_w \<in> keys then v else 0) - (if K_s \<in> keys then v else 0),
       up_down = (if K_i \<in> keys then v else 0) - (if K_k \<in> keys then v else 0),
       yaw = (if K_e \<in> keys then v else 0) - (if K_q \<in> keys then v else 0)\<rparr>)
   \<and> (speed_multiplier s = speed_multiplier s'
        \<longrightarrow> calculate_rc_values keys s = calculate_rc_values keys s')
   \<and> (K_a \<in> keys \<and> K_d \<in> keys \<longrightarrow> left_right (calculate_rc_values keys s) = 0)
   \<and> (K_w \<in> keys \<and> K_s \<in> keys \<longrightarrow> forward_back (calculate_rc_values keys s) = 0)
   \<and> (K_i \<in> keys \<and> K_k \<in> keys \<longrightarrow> up_down (calculate_rc_values keys s) = 0)
   \<and> (K_q \<in> keys \<and> K_e \<in> keys \<longrightarrow> yaw (calculate_rc_values keys s) = 0)
   \<and> forward_back (calculate_rc_values {K_w} (set_speed_multiplier 1 s)) = 50
   \<and> forward_back (calculate_rc_values {K_w} (set_speed_multiplier 3 s)) = 100"
proof -
  have pure: "speed_multiplier s = speed_multiplier s'
        \<longrightarrow> calculate_rc_values keys s = calculate_rc_values keys s'"
    by (simp add: calculate_rc_values_eq)
  have lr: "K_a \<in> keys \<and> K_d \<in> keys \<longrightarrow> left_right (calculate_rc_values keys s) = 0"
    by (simp add: calculate_rc_values_eq Let_def)
  have fb: "K_w \<in> keys \<and> K_s \<in> keys \<longrightarrow> forward_back (calculate_rc_values keys s) = 0"
    by (simp add: calculate_rc_values_eq Let_def)
  have ud: "K_i \<in> keys \<and> K_k \<in> keys \<longrightarrow> up_down (calculate_rc_values keys s) = 0"
    by (simp add: calculate_rc_values_eq Let_def)
  have yw: "K_q \<in> keys \<and> K_e \<in> keys \<longrightarrow> yaw (calculate_rc_values keys s) = 0"
    by (simp add: calculate_rc_values_eq Let_def)
  have one: "forward_back (calculate_rc_values {K_w} (set_speed_multiplier 1 s)) = 50"
    by (simp add: calculate_rc_values_eq Let_def key_codes_distinct)
  have three: "forward_back (calculate_rc_values {K_w} (set_speed_multiplier 3 s)) = 100"
    by (simp add: calculate_rc_values_eq Let_def key_codes_distinct)
  from calculate_rc_values_eq [of keys s] pure lr fb ud yw one three show ?thesis
    by (intro conjI)
qed

theorem calculate_rc_values_keys_witness:
  "left_right (calculate_rc_values {K_a, K_d} (set_speed_multiplier 3 (init True))) = 0
   \<and> forward_back (calculate_rc_values {K_w, K_s} (init True)) = 0
   \<and> up_down (calculate_rc_values {K_i, K_k} (init True)) = 0
   \<and> yaw (calculate_rc_values {K_q, K_e} (init True)) = 0
   \<and> calculate_rc_values {K_w} (init True) = calculate_rc_values {K_w} (init False)
   \<and> forward_back (calculate_rc_values {K_w} (set_speed_multiplier 1 (init True))) = 50
   \<and> forward_back (calculate_rc_values {K_w} (set_speed_multiplier 3 (init True))) = 100"
proof -
  have sm: "speed_multiplier (init True) = speed_multiplier (init False)"
    by (simp add: init_def)
  have lr: "left_right (calculate_rc_values {K_a, K_d} (set_speed_multiplier 3 (init True))) = 0"
    using calculate_rc_values_keys
      [where keys = "{K_a, K_d}" and s = "set_speed_multiplier 3 (init True)", THEN conjunct2, THEN conjunct2, THEN conjunct1]
    by simp
  have fb: "forward_back (calculate_rc_values {K_w, K_s} (init True)) = 0"
    using calculate_rc_values_keys [where keys = "{K_w, K_s}" and s = "init True", THEN conjunct2, THEN conjunct2, THEN conjunct2, THEN conjunct1]
    by simp
  have ud: "up_down (calculate_rc_values {K_i, K_k} (init True)) = 0"
    using calculate_rc_values_keys [where keys = "{K_i, K_k}" and s = "init True", THEN conjunct2, THEN conjunct2, THEN conjunct2, THEN conjunct2, THEN conjunct1]
    by simp
  have yw: "yaw (calculate_rc_values {K_q, K_e} (init True)) = 0"
    using calculate_rc_values_keys [where keys = "{K_q, K_e}" and s = "init True", THEN conjunct2, THEN conjunct2, THEN conjunct2, THEN conjunct2, THEN conjunct2, THEN conjunct1]
    by simp
  have pure: "calculate_rc_values {K_w} (init True) = calculate_rc_values {K_w} (init False)"
    using calculate_rc_values_keys
      [where keys = "{K_w}" and s = "init True" and s' = "init False", THEN conjunct2, THEN conjunct1] sm
    by simp
  have one: "forward_back (calculate_rc_values {K_w} (set_speed_multiplier 1 (init True))) = 50"
    using calculate_rc_values_keys [where s = "init True", THEN conjunct2, THEN conjunct2, THEN conjunct2, THEN conjunct2, THEN conjunct2, THEN conjunct2, THEN conjunct1]
    by simp
  have three: "forward_back (calculate_rc_values {K_w} (set_speed_multiplier 3 (init True))) = 100"
    using calculate_rc_values_keys [where s = "init True", THEN conjunct2, THEN conjunct2, THEN conjunct2, THEN conjunct2, THEN conjunct2, THEN conjunct2, THEN conjunct2]
    by simp
  from lr fb ud yw pure one three show ?thesis
    by (intro conjI)
qed

lemma rc_in_range_calculate:
  assumes "- 100 \<le> py_int (50 * speed_multiplier s)"
  shows "rc_in_range (calculate_rc_values keys s)"
proof -
  let ?v = "min (py_int (50 * speed_multiplier s)) 100"
  have lo: "- 100 \<le> ?v" and hi: "?v \<le> 100"
    using assms by simp_all
  show ?thesis
    unfolding calculate_rc_values_eq Let_def rc_in_range_def
    using axis_range [OF lo hi] by simp
qed

lemma rc_in_range_iff:
  "(\<forall>keys. rc_in_range (calculate_rc_values keys (set_speed_multiplier m s)))
     = (- 101 < 50 * m)"
proof
  assume all: "\<forall>keys. rc_in_range (calculate_rc_values keys (set_speed_multiplier m s))"
  show "- 101 < 50 * m"
  proof (rule ccontr)
    assume "\<not> - 101 < 50 * m"
    then have "py_int (50 * m) \<le> - 101"
      by (simp add: py_int_def ceiling_le_iff)
    then have "left_right (calculate_rc_values {K_a} (set_speed_multiplier m s)) > 100"
      by (simp add: calculate_rc_values_eq Let_def key_codes_distinct)
    then have "\<not> rc_in_range (calculate_rc_values {K_a} (set_speed_multiplier m s))"
      by (simp add: rc_in_range_def)
    with all show False by blast
  qed
next
  assume "- 101 < 50 * m"
  then have "- 100 \<le> py_int (50 * speed_multiplier (set_speed_multiplier m s))"
    by (simp add: py_int_lower)
  then show "\<forall>keys. rc_in_range (calculate_rc_values keys (set_speed_multiplier m s))"
    by (simp add: rc_in_range_calculate)
qed

lemma float_overflows_small: "\<bar>x\<bar> \<le> 1000 \<Longrightarrow> \<not> float_overflows x"
proof -
  have "(2::real) ^ 970 \<le> 2 ^ 1024 - 2 ^ 970"
    by simp
  moreover have "(1000::real) < 2 ^ 970"
    by simp
  ultimately show "\<bar>x\<bar> \<le> 1000 \<Longrightarrow> \<not> float_overflows x"
    by (simp add: float_overflows_def)
qed

lemma float_overflows_large: "float_overflows (50 * 10 ^ 308)"
  by (simp add: float_overflows_def)

text \<open>
  C8, as the code has it: \<^verbatim>\<open>set_speed_multiplier\<close> stores any multiplier \<open>m\<close>. When
  the product \<open>50 * m\<close> is infinite as a float, \<^verbatim>\<open>calculate_rc_values\<close> raises and
  returns no vector. Otherwise it returns a vector, and the four components lie in
  \<open>[-100, 100]\<close> for every set of held keys exactly when \<open>50 * m > -101\<close>, which holds
  for every multiplier that is not negative: the speed is capped at 100 from above only.
\<close>

theorem calculate_rc_values_range:
  "(float_overflows (50 * m)
      \<longrightarrow> calculate_rc_values_float keys (set_speed_multiplier m s) = Inl OverflowError)
   \<and> (\<not> float_overflows (50 * m)
      \<longrightarrow> calculate_rc_values_float keys (set_speed_multiplier m s)
            = Inr (calculate_rc_values keys (set_speed_multiplier m s))
          \<and> (\<forall>keys'. rc_in_range (calculate_rc_values keys' (set_speed_multiplier m s)))
              = (- 101 < 50 * m))"
  by (simp add: calculate_rc_values_float_def rc_in_range_iff)

theorem calculate_rc_values_range_witness:
  "calculate_rc_values_float {K_a, K_w, K_i, K_e} (set_speed_multiplier 3 (init True))
     = Inr \<lparr>left_right = - 100, forward_back = 100, up_down = 100, yaw = 100\<rparr>
   \<and> rc_in_range (calculate_rc_values {K_a, K_w, K_i, K_e} (set_speed_multiplier 3 (init True)))
   \<and> rc_in_range (calculate_rc_values {K_a} (set_speed_multiplier (- 2) (init True)))
   \<and> calculate_rc_values_float {K_w} (set_speed_multiplier (10 ^ 308) (init True))
       = Inl OverflowError"
proof -
  have small: "\<not> float_overflows (50 * 3)" "\<not> float_overflows (50 * (- 2))"
    by (simp_all add: float_overflows_small)
  have v: "calculate_rc_values {K_a, K_w, K_i, K_e} (set_speed_multiplier 3 (init True))
             = \<lparr>left_right = - 100, forward_back = 100, up_down = 100, yaw = 100\<rparr>"
    by (simp add: calculate_rc_values_eq Let_def key_codes)
  have a: "calculate_rc_values_float {K_a, K_w, K_i, K_e} (set_speed_multiplier 3 (init True))
     = Inr \<lparr>left_right = - 100, forward_back = 100, up_down = 100, yaw = 100\<rparr>"
    using calculate_rc_values_range [where m = 3 and s = "init True"
        and keys = "{K_a, K_w, K_i, K_e}", THEN conjunct2] small(1) v
    by simp
  have b: "rc_in_range (calculate_rc_values {K_a, K_w, K_i, K_e}
             (set_speed_multiplier 3 (init True)))"
    using calculate_rc_values_range [where m = 3 and s = "init True", THEN conjunct2]
      small(1)
    by simp
  have c: "rc_in_range (calculate_rc_values {K_a} (set_speed_multiplier (- 2) (init True)))"
    using calculate_rc_values_range [where m = "- 2" and s = "init True", THEN conjunct2]
      small(2)
    by simp
  have d: "calculate_rc_values_float {K_w} (set_speed_multiplier (10 ^ 308) (init True))
       = Inl OverflowError"
    using calculate_rc_values_range [where m = "10 ^ 308" and s = "init True"
        and keys = "{K_w}", THEN conjunct1] float_overflows_large
    by simp
  from a b c d show ?thesis
    by (intro conjI)
qed

theorem calculate_rc_values_range_counterexample:
  "calculate_rc_values_float {K_a} (set_speed_multiplier (- 3) (init True))
     = Inr \<lparr>left_right = 150, forward_back = 0, up_down = 0, yaw = 0\<rparr>
   \<and> \<not> rc_in_range \<lparr>left_right = 150, forward_back = 0, up_down = 0, yaw = 0\<rparr>"
proof -
  have "\<not> float_overflows (50 * (- 3))"
    by (simp add: float_overflows_small)
  moreover have "calculate_rc_values {K_a} (set_speed_multiplier (- 3) (init True))
                   = \<lparr>left_right = 150, forward_back = 0, up_down = 0, yaw = 0\<rparr>"
    by (simp add: calculate_rc_values_eq Let_def key_codes)
  ultimately show ?thesis
    by (simp add: calculate_rc_values_float_def rc_in_range_def)
qed

subsection \<open>The command queue\<close>

text \<open>
  C6: \<^verbatim>\<open>clear_command_queue\<close> leaves the queue empty; on an empty queue it prints the
  line of its own that there is nothing to clear; on a queue that is not empty the
  line it prints carries the length of the queue after the clearing, which is 0
  whatever the number of commands cleared, followed by the beep when audio is enabled.
\<close>

theorem clear_command_queue_report:
  "command_queue (clear_command_queue s) = []
   \<and> (command_queue s = []
        \<longrightarrow> trace (clear_command_queue s) = trace s @ [Print Msg_no_commands_to_clear])
   \<and> (command_queue s \<noteq> []
        \<longrightarrow> trace (clear_command_queue s)
              = trace s @ Print (Msg_cleared 0)
                  # (if audio_enabled s then [Beep 800 (1 / 10)] else []))"
  by (simp add: clear_command_queue_def play_beep_def Let_def)

theorem clear_command_queue_report_witness:
  "command_queue (clear_command_queue
      ((init True)\<lparr>command_queue :=
          [(Tello_move_forward, [30]), (Tello_rotate_clockwise, [90]), (Tello_land, [])]\<rparr>)) = []
   \<and> trace (clear_command_queue
      ((init True)\<lparr>command_queue :=
          [(Tello_move_forward, [30]), (Tello_rotate_clockwise, [90]), (Tello_land, [])]\<rparr>))
     = [Print (Msg_cleared 0), Beep 800 (1 / 10)]
   \<and> trace (clear_command_queue (init True)) = [Print Msg_no_commands_to_clear]"
proof -
  let ?s = "(init True)\<lparr>command_queue :=
          [(Tello_move_forward, [30]), (Tello_rotate_clockwise, [90]), (Tello_land, [])]\<rparr>"
  have a: "command_queue (clear_command_queue ?s) = []"
    using clear_command_queue_report [of ?s, THEN conjunct1] .
  have b: "trace (clear_command_queue ?s) = [Print (Msg_cleared 0), Beep 800 (1 / 10)]"
    using clear_command_queue_report [of ?s, THEN conjunct2, THEN conjunct2]
    by (simp add: init_def)
  have c: "trace (clear_command_queue (init True)) = [Print Msg_no_commands_to_clear]"
    using clear_command_queue_report [of "init True", THEN conjunct2, THEN conjunct1]
    by (simp add: init_def)
  from a b c show ?thesis by (intro conjI)
qed

subsection \<open>Facts about the operations\<close>

lemma link_calls_frame [simp]:
  "link_calls (s\<lparr>tello := x1\<rparr>) = link_calls s"
  "link_calls (s\<lparr>connection_status := x2\<rparr>) = link_calls s"
  "link_calls (s\<lparr>battery_level := x3\<rparr>) = link_calls s"
  "link_calls (s\<lparr>height := x4\<rparr>) = link_calls s"
  "link_calls (s\<lparr>flight_time := x5\<rparr>) = link_calls s"
  "link_calls (s\<lparr>is_flying := x6\<rparr>) = link_calls s"
  "link_calls (s\<lparr>takeoff_time := x7\<rparr>) = link_calls s"
  "link_calls (s\<lparr>command_queue := x8\<rparr>) = link_calls s"
  "link_calls (s\<lparr>speed_multiplier := x9\<rparr>) = link_calls s"
  "link_calls (s\<lparr>last_ready_beep := x10\<rparr>) = link_calls s"
  "link_calls (s\<lparr>rc_mode_active := x11\<rparr>) = link_calls s"
  "link_calls (s\<lparr>rc_stop_event := x12\<rparr>) = link_calls s"
  by (simp_all add: link_calls_def)

lemma calculate_rc_values_frame [simp]:
  "calculate_rc_values keys (emit ev s) = calculate_rc_values keys s"
  "calculate_rc_values keys (s\<lparr>trace := tr\<rparr>) = calculate_rc_values keys s"
  "calculate_rc_values keys (s\<lparr>current_rc_values := v\<rparr>) = calculate_rc_values keys s"
  by (simp_all add: calculate_rc_values_eq)

lemma example_flying_fields:
  "tello example_flying = Some Tello"
  "connection_status example_flying = CONNECTED"
  "last_command_time example_flying = 1000"
  "command_cooldown example_flying = 1 / 2"
  "is_flying example_flying = True"
  "imu_ready example_flying = False"
  "takeoff_time example_flying = 1005"
  "speed_multiplier example_flying = 1"
  "imu_stabilization_delay example_flying = 3"
  "rc_mode_active example_flying = False"
  "link_calls example_flying =
     [Link_connect, Get_battery, Get_height, Get_flight_time, Command Tello_takeoff []]"
  by (simp_all add: example_flying_def takeoff_def execute_command_def can_execute_command_def
        example_connected_fields Let_def)

lemma example_rc_fields:
  "tello example_rc = Some Tello"
  "connection_status example_rc = CONNECTED"
  "rc_mode_active example_rc = True"
  "speed_multiplier example_rc = 1"
  "current_rc_values example_rc = zero_rc"
  by (simp_all add: example_rc_def start_rc_mode_def example_connected_fields Let_def)

lemma is_movement_pulse:
  "is_movement c \<Longrightarrow> tello s \<noteq> None \<Longrightarrow> connection_status s = CONNECTED \<Longrightarrow>
   link_calls (snd (execute_rc_movement c args res s))
     = link_calls s @ [send_vector (pulse_vector c (min (py_int (50 * speed_multiplier s)) 100))]"
  by (cases c; cases res)
     (simp_all add: execute_rc_movement_def send_vector_def zero_rc_def Let_def)

lemma execute_movement_fallback:
  "is_flying s \<Longrightarrow> \<not> imu_ready s \<Longrightarrow> t_imu - takeoff_time s < imu_stabilization_delay s \<Longrightarrow>
   execute_movement_command c args t_imu t_next res s
     = execute_rc_movement c args res
         (emit (Print (Msg_imu_stabilizing
                  (imu_stabilization_delay s - (t_next - takeoff_time s)))) s)"
  by (simp add: execute_movement_command_def check_imu_ready_def Let_def)

lemma execute_movement_discrete:
  "is_flying s \<Longrightarrow> imu_stabilization_delay s \<le> t_imu - takeoff_time s \<Longrightarrow>
   execute_movement_command c [magnitude] t_imu t_next res s
     = execute_command c [py_int (magnitude * speed_multiplier s)] t_next res
         (emit (Print (Msg_command (speed_multiplier s > 1) c
                         (py_int (magnitude * speed_multiplier s))))
            (s\<lparr>imu_ready := True\<rparr>))"
  by (simp add: execute_movement_command_def check_imu_ready_def Let_def)

lemma execute_command_dispatch:
  "tello s \<noteq> None \<Longrightarrow> connection_status s = CONNECTED \<Longrightarrow>
   command_cooldown s \<le> t - last_command_time s \<Longrightarrow>
   link_calls (snd (execute_command c args t res s)) = link_calls s @ [Command c args]
   \<and> fst (execute_command c args t res s) = (res = Done)"
  by (cases res) (simp_all add: execute_command_def can_execute_command_def Let_def)

lemma stop_rc_mode_flags:
  "is_flying (stop_rc_mode res s) = is_flying s"
  "imu_ready (stop_rc_mode res s) = imu_ready s"
  by (simp_all add: stop_rc_mode_def Let_def)

lemma update_telemetry_flags:
  "is_flying (update_telemetry b h f t s) = is_flying s"
  "imu_ready (update_telemetry b h f t s) = imu_ready s"
  by (simp_all add: update_telemetry_def check_ready_beep_def play_beep_def Let_def
        split: option.splits)

lemma disconnect_flags:
  "is_flying (disconnect rc_res land_res end_res s) = is_flying s"
  "imu_ready (disconnect rc_res land_res end_res s) = imu_ready s"
  "connection_status (disconnect rc_res land_res end_res s) = DISCONNECTED"
  "tello (disconnect rc_res land_res end_res s) = None"
  by (simp_all add: disconnect_def stop_rc_mode_flags Let_def split: link_result.splits)

lemma connect_flags:
  "is_flying (snd (connect ctor res b h f t s)) = is_flying s"
  "imu_ready (snd (connect ctor res b h f t s)) = imu_ready s"
  by (simp_all add: connect_def update_telemetry_flags Let_def split: link_result.splits)

subsection \<open>Continuous control and a failing send\<close>

text \<open>
  C7: when \<^verbatim>\<open>update_rc_control\<close> runs with continuous control active, the link present
  and Connected, and a computed vector that differs from the stored one, a failing
  \<^verbatim>\<open>send_rc_control\<close> is caught and reported and every other field is left as it was,
  but \<^verbatim>\<open>current_rc_values\<close> holds the computed vector all the same: it is assigned
  before the call.
\<close>

theorem update_rc_control_failed_send:
  "rc_mode_active s \<and> tello s \<noteq> None \<and> connection_status s = CONNECTED
     \<and> calculate_rc_values keys s \<noteq> current_rc_values s
   \<longrightarrow> current_rc_values (update_rc_control keys (Failed e) s) = calculate_rc_values keys s
       \<and> trace (update_rc_control keys (Failed e) s)
           = trace s @ [Print (Msg_update_rc_called True (card keys)),
                        Link (send_vector (calculate_rc_values keys s)),
                        Print (Msg_rc_control_failed e)]
       \<and> (update_rc_control keys (Failed e) s)
             \<lparr>current_rc_values := current_rc_values s, trace := trace s\<rparr> = s"
  by (simp add: update_rc_control_def send_vector_def Let_def emit_def)

theorem update_rc_control_failed_send_witness:
  "current_rc_values example_rc = zero_rc
   \<and> current_rc_values (update_rc_control {K_w} (Failed ''timeout'') example_rc)
       = \<lparr>left_right = 0, forward_back = 50, up_down = 0, yaw = 0\<rparr>"
proof -
  have v: "calculate_rc_values {K_w} example_rc
             = \<lparr>left_right = 0, forward_back = 50, up_down = 0, yaw = 0\<rparr>"
    by (simp add: calculate_rc_values_eq example_rc_fields Let_def key_codes)
  have "current_rc_values (update_rc_control {K_w} (Failed ''timeout'') example_rc)
          = calculate_rc_values {K_w} example_rc"
    using update_rc_control_failed_send [of example_rc "{K_w}" "''timeout''"]
    by (simp add: example_rc_fields v zero_rc_def)
  with v example_rc_fields(5) show ?thesis
    by simp
qed

lemma example_landed_fields:
  "tello example_landed = Some Tello"
  "connection_status example_landed = CONNECTED"
  "last_command_time example_landed = 1006"
  "command_cooldown example_landed = 1 / 2"
  "is_flying example_landed = False"
  "imu_ready example_landed = False"
  "speed_multiplier example_landed = 1"
  "imu_stabilization_delay example_landed = 3"
  by (simp_all add: example_landed_def land_def execute_command_def can_execute_command_def
        example_flying_fields Let_def)

lemma example_second_flight_fields:
  "tello example_second_flight = Some Tello"
  "connection_status example_second_flight = CONNECTED"
  "last_command_time example_second_flight = 1007"
  "command_cooldown example_second_flight = 1 / 2"
  "is_flying example_second_flight = True"
  "imu_ready example_second_flight = False"
  "takeoff_time example_second_flight = 1008"
  "speed_multiplier example_second_flight = 1"
  "imu_stabilization_delay example_second_flight = 3"
  by (simp_all add: example_second_flight_def takeoff_def execute_command_def
        can_execute_command_def example_landed_fields Let_def)

lemma example_stale_fields:
  "tello example_stale = Some Tello"
  "connection_status example_stale = CONNECTED"
  "last_command_time example_stale = 1007"
  "command_cooldown example_stale = 1 / 2"
  "is_flying example_stale = True"
  "imu_ready example_stale = True"
  "takeoff_time example_stale = 1008"
  "speed_multiplier example_stale = 1"
  "imu_stabilization_delay example_stale = 3"
  by (simp_all add: example_stale_def notify_imu_ready_def example_second_flight_fields)

subsection \<open>Flips\<close>

text \<open>
  C9: whenever \<^verbatim>\<open>is_flying\<close> is false or \<^verbatim>\<open>imu_ready\<close> is false, \<^verbatim>\<open>flip_forward\<close>
  returns False, prints its reason and makes no call to the link; flying with the flag
  \<^verbatim>\<open>imu_ready\<close> set, a Connected link and the cooldown elapsed, it calls the link's flip,
  whatever the clock says of the stabilization delay: the guard reads the flag and not
  the clock. The guard is stricter than that of ordinary movement: flying with the IMU
  not ready, inside the stabilization window and Connected, a movement primitive is not
  refused but sent as a pulse on its continuous axis. In \<open>example_stale\<close>, where the task
  of an earlier takeoff has set the flag, the flip is called one second after
  \<^verbatim>\<open>takeoff_time\<close>.
\<close>

theorem flip_forward_guard:
  "(\<not> is_flying s \<or> \<not> imu_ready s
      \<longrightarrow> flip_forward t res s
            = (Inr False,
               emit (Print (if \<not> is_flying s then Msg_flip_requires_takeoff
                            else Msg_flip_imu_wait)) s)
          \<and> link_calls (snd (flip_forward t res s)) = link_calls s)
   \<and> (is_flying s \<and> imu_ready s \<and> tello s \<noteq> None \<and> connection_status s = CONNECTED
        \<and> command_cooldown s \<le> t - last_command_time s
      \<longrightarrow> link_calls (snd (flip_forward t res s)) = link_calls s @ [Command Tello_flip_forward []])
   \<and> (is_flying s \<and> \<not> imu_ready s \<and> t_imu - takeoff_time s < imu_stabilization_delay s
        \<and> tello s \<noteq> None \<and> connection_status s = CONNECTED \<and> is_movement c
      \<longrightarrow> link_calls (snd (execute_movement_command c args t_imu t_next res s))
            = link_calls s
                @ [send_vector (pulse_vector c (min (py_int (50 * speed_multiplier s)) 100))])"
proof -
  have refuse: "\<not> is_flying s \<or> \<not> imu_ready s
      \<longrightarrow> flip_forward t res s
            = (Inr False,
               emit (Print (if \<not> is_flying s then Msg_flip_requires_takeoff
                            else Msg_flip_imu_wait)) s)
          \<and> link_calls (snd (flip_forward t res s)) = link_calls s"
    by (simp add: flip_forward_def)
  have dispatch: "is_flying s \<and> imu_ready s \<and> tello s \<noteq> None \<and> connection_status s = CONNECTED
        \<and> command_cooldown s \<le> t - last_command_time s
      \<longrightarrow> link_calls (snd (flip_forward t res s)) = link_calls s @ [Command Tello_flip_forward []]"
    using execute_command_dispatch
      [of "emit (Print Msg_performing_flip) s" t Tello_flip_forward "[]" res]
    by (simp add: flip_forward_def Let_def case_prod_beta)
  have movement: "is_flying s \<and> \<not> imu_ready s
        \<and> t_imu - takeoff_time s < imu_stabilization_delay s
        \<and> tello s \<noteq> None \<and> connection_status s = CONNECTED \<and> is_movement c
      \<longrightarrow> link_calls (snd (execute_movement_command c args t_imu t_next res s))
            = link_calls s
                @ [send_vector (pulse_vector c (min (py_int (50 * speed_multiplier s)) 100))]"
    by (simp add: execute_movement_fallback is_movement_pulse)
  from refuse dispatch movement show ?thesis
    by (intro conjI)
qed

theorem flip_forward_guard_witness:
  "fst (flip_forward 1006 Done example_flying) = Inr False
   \<and> link_calls (snd (flip_forward 1006 Done example_flying)) = link_calls example_flying
   \<and> fst (flip_forward 1006 Done example_connected) = Inr False
   \<and> link_calls (snd (execute_movement_command Tello_move_forward [30] 1006 1006 Done
                        example_flying))
       = link_calls example_flying @ [Send_rc_control 0 50 0 0]
   \<and> is_flying example_stale
   \<and> 1009 - takeoff_time example_stale < imu_stabilization_delay example_stale
   \<and> link_calls (snd (flip_forward 1009 Done example_stale))
       = link_calls example_stale @ [Command Tello_flip_forward []]"
proof -
  have a: "fst (flip_forward 1006 Done example_flying) = Inr False
           \<and> link_calls (snd (flip_forward 1006 Done example_flying)) = link_calls example_flying"
    using flip_forward_guard [where s = example_flying and t = 1006 and res = Done,
        THEN conjunct1]
    by (simp add: example_flying_fields)
  have b: "fst (flip_forward 1006 Done example_connected) = Inr False"
    using flip_forward_guard [where s = example_connected and t = 1006 and res = Done,
        THEN conjunct1]
    by (simp add: example_connected_fields)
  have c: "link_calls (snd (execute_movement_command Tello_move_forward [30] 1006 1006 Done
                        example_flying))
       = link_calls example_flying @ [Send_rc_control 0 50 0 0]"
    using flip_forward_guard [where s = example_flying and t_imu = 1006 and t_next = 1006
        and res = Done and c = Tello_move_forward and args = "[30]",
        THEN conjunct2, THEN conjunct2]
    by (simp add: example_flying_fields send_vector_def zero_rc_def)
  have d: "link_calls (snd (flip_forward 1009 Done example_stale))
       = link_calls example_stale @ [Command Tello_flip_forward []]"
    using flip_forward_guard [where s = example_stale and t = 1009 and res = Done,
        THEN conjunct2, THEN conjunct1]
    by (simp add: example_stale_fields)
  from a b c d show ?thesis
    by (simp add: example_stale_fields)
qed

subsection \<open>Disconnecting\<close>

text \<open>
  C10: from every state and whatever the link does during the teardown,
  \<^verbatim>\<open>disconnect\<close> ends with \<^verbatim>\<open>connection_status = DISCONNECTED\<close> and
  \<^verbatim>\<open>tello = None\<close> and changes neither \<^verbatim>\<open>is_flying\<close> nor \<^verbatim>\<open>imu_ready\<close>, and a
  \<^verbatim>\<open>connect\<close> after it changes neither of them either: after disconnecting while
  flying the controller still says that it is flying.
\<close>

theorem disconnect_frame:
  "connection_status (disconnect rc_res land_res end_res s) = DISCONNECTED
   \<and> tello (disconnect rc_res land_res end_res s) = None
   \<and> is_flying (disconnect rc_res land_res end_res s) = is_flying s
   \<and> imu_ready (disconnect rc_res land_res end_res s) = imu_ready s
   \<and> is_flying (snd (connect ctor res b h f t (disconnect rc_res land_res end_res s)))
       = is_flying s
   \<and> imu_ready (snd (connect ctor res b h f t (disconnect rc_res land_res end_res s)))
       = imu_ready s"
  by (simp add: disconnect_flags connect_flags)

theorem disconnect_frame_witness:
  "connection_status (disconnect Done (Failed ''timeout'') Done example_flying) = DISCONNECTED
   \<and> tello (disconnect Done (Failed ''timeout'') Done example_flying) = None
   \<and> is_flying (disconnect Done (Failed ''timeout'') Done example_flying)
   \<and> is_flying (disconnect Done Done Done example_flying)
   \<and> link_calls (disconnect Done Done Done example_flying)
       = link_calls example_flying @ [Command Tello_land [], Link_end]
   \<and> is_flying (snd (connect Done Done (Some 80) (Some 0) (Some 0) 1100
                       (disconnect Done Done Done example_flying)))
   \<and> connection_status (snd (connect Done Done (Some 80) (Some 0) (Some 0) 1100
                       (disconnect Done Done Done example_flying))) = CONNECTED"
proof -
  have a: "connection_status (disconnect Done (Failed ''timeout'') Done example_flying)
             = DISCONNECTED
           \<and> tello (disconnect Done (Failed ''timeout'') Done example_flying) = None
           \<and> is_flying (disconnect Done (Failed ''timeout'') Done example_flying)"
    using disconnect_frame [of Done "Failed ''timeout''" Done example_flying]
    by (simp add: example_flying_fields)
  have b: "is_flying (disconnect Done Done Done example_flying)
           \<and> is_flying (snd (connect Done Done (Some 80) (Some 0) (Some 0) 1100
                       (disconnect Done Done Done example_flying)))"
    using disconnect_frame [of Done Done Done example_flying Done Done "Some 80" "Some 0"
        "Some 0" 1100]
    by (simp add: example_flying_fields)
  have c: "link_calls (disconnect Done Done Done example_flying)
       = link_calls example_flying @ [Command Tello_land [], Link_end]"
    by (simp add: disconnect_def example_flying_fields Let_def)
  have d: "connection_status (snd (connect Done Done (Some 80) (Some 0) (Some 0) 1100
                       (disconnect Done Done Done example_flying))) = CONNECTED"
    by (simp add: connect_def update_telemetry_def check_ready_beep_def play_beep_def Let_def)
  from a b c d show ?thesis
    by simp
qed

subsection \<open>Takeoff and the stabilization of the IMU\<close>

text \<open>
  C3: a takeoff from the ground with the link present and Connected, the cooldown
  elapsed and the link's takeoff returning succeeds, and after every takeoff that
  succeeds \<^verbatim>\<open>imu_ready\<close> is false and \<^verbatim>\<open>takeoff_time\<close> is the clock reading taken after
  the link's call; while flying, \<^verbatim>\<open>check_imu_ready\<close> returns false before
  \<^verbatim>\<open>imu_stabilization_delay\<close> (3 s from construction) has elapsed since
  \<^verbatim>\<open>takeoff_time\<close> if the flag is not set, and sets the flag and returns true once it
  has; the deferred task sets the flag while flying; and \<^verbatim>\<open>check_imu_ready\<close> returns
  false, changing nothing, whenever \<^verbatim>\<open>is_flying\<close> is false.
\<close>

theorem takeoff_imu_ready:
  "(tello s \<noteq> None \<and> connection_status s = CONNECTED \<and> \<not> is_flying s
      \<and> command_cooldown s \<le> t_cmd - last_command_time s
    \<longrightarrow> fst (takeoff t_cmd t_stamp Done s) = Inr ()
        \<and> is_flying (snd (takeoff t_cmd t_stamp Done s))
        \<and> \<not> imu_ready (snd (takeoff t_cmd t_stamp Done s))
        \<and> takeoff_time (snd (takeoff t_cmd t_stamp Done s)) = t_stamp
        \<and> imu_stabilization_delay (snd (takeoff t_cmd t_stamp Done s))
            = imu_stabilization_delay s)
   \<and> (\<not> is_flying s \<and> is_flying (snd (takeoff t_cmd t_stamp res s))
    \<longrightarrow> \<not> imu_ready (snd (takeoff t_cmd t_stamp res s))
        \<and> takeoff_time (snd (takeoff t_cmd t_stamp res s)) = t_stamp)
   \<and> (is_flying s \<and> \<not> imu_ready s \<and> now - takeoff_time s < imu_stabilization_delay s
    \<longrightarrow> check_imu_ready now s = (False, s))
   \<and> (is_flying s \<and> imu_stabilization_delay s \<le> now - takeoff_time s
    \<longrightarrow> check_imu_ready now s = (True, s\<lparr>imu_ready := True\<rparr>))
   \<and> (is_flying s \<longrightarrow> imu_ready (notify_imu_ready s) \<and> is_flying (notify_imu_ready s))
   \<and> (\<not> is_flying s \<longrightarrow> check_imu_ready now s = (False, s))
   \<and> imu_stabilization_delay (init a) = 3"
proof -
  have success: "tello s \<noteq> None \<and> connection_status s = CONNECTED \<and> \<not> is_flying s
      \<and> command_cooldown s \<le> t_cmd - last_command_time s
    \<longrightarrow> fst (takeoff t_cmd t_stamp Done s) = Inr ()
        \<and> is_flying (snd (takeoff t_cmd t_stamp Done s))
        \<and> \<not> imu_ready (snd (takeoff t_cmd t_stamp Done s))
        \<and> takeoff_time (snd (takeoff t_cmd t_stamp Done s)) = t_stamp
        \<and> imu_stabilization_delay (snd (takeoff t_cmd t_stamp Done s))
            = imu_stabilization_delay s"
    by (simp add: takeoff_def execute_command_def can_execute_command_def Let_def)
  have flags: "is_flying (snd (execute_command c args t r s0)) = is_flying s0" for c args t r s0
    by (cases r) (simp_all add: execute_command_def can_execute_command_def Let_def)
  have stamped: "\<not> is_flying s \<and> is_flying (snd (takeoff t_cmd t_stamp res s))
    \<longrightarrow> \<not> imu_ready (snd (takeoff t_cmd t_stamp res s))
        \<and> takeoff_time (snd (takeoff t_cmd t_stamp res s)) = t_stamp"
    using flags [of Tello_takeoff "[]" t_cmd res "emit (Print Msg_attempting_takeoff) s"]
    by (simp add: takeoff_def Let_def case_prod_beta split: if_splits)
  have early: "is_flying s \<and> \<not> imu_ready s \<and> now - takeoff_time s < imu_stabilization_delay s
    \<longrightarrow> check_imu_ready now s = (False, s)"
    by (simp add: check_imu_ready_def)
  have late: "is_flying s \<and> imu_stabilization_delay s \<le> now - takeoff_time s
    \<longrightarrow> check_imu_ready now s = (True, s\<lparr>imu_ready := True\<rparr>)"
    by (simp add: check_imu_ready_def)
  have task: "is_flying s \<longrightarrow> imu_ready (notify_imu_ready s) \<and> is_flying (notify_imu_ready s)"
    by (simp add: notify_imu_ready_def)
  have grounded: "\<not> is_flying s \<longrightarrow> check_imu_ready now s = (False, s)"
    by (simp add: check_imu_ready_def)
  have delay: "imu_stabilization_delay (init a) = 3"
    by (simp add: init_def)
  from success stamped early late task grounded delay show ?thesis
    by (intro conjI)
qed

theorem takeoff_imu_ready_witness:
  "is_flying example_flying \<and> \<not> imu_ready example_flying
   \<and> takeoff_time example_flying = 1005
   \<and> fst (check_imu_ready 1007 example_flying) = False
   \<and> check_imu_ready 1008 example_flying = (True, example_flying\<lparr>imu_ready := True\<rparr>)
   \<and> imu_ready (notify_imu_ready example_flying)
   \<and> check_imu_ready 2000 example_connected = (False, example_connected)"
proof -
  have a: "is_flying example_flying \<and> \<not> imu_ready example_flying
           \<and> takeoff_time example_flying = 1005"
    using takeoff_imu_ready [where s = example_connected and t_cmd = 1000 and t_stamp = 1005,
        THEN conjunct1]
    by (simp add: example_connected_fields example_flying_def)
  have b: "fst (check_imu_ready 1007 example_flying) = False"
    using takeoff_imu_ready [where s = example_flying and now = 1007,
        THEN conjunct2, THEN conjunct2, THEN conjunct1]
    by (simp add: example_flying_fields)
  have c: "check_imu_ready 1008 example_flying = (True, example_flying\<lparr>imu_ready := True\<rparr>)"
    using takeoff_imu_ready [where s = example_flying and now = 1008,
        THEN conjunct2, THEN conjunct2, THEN conjunct2, THEN conjunct1]
    by (simp add: example_flying_fields)
  have d: "imu_ready (notify_imu_ready example_flying)"
    using takeoff_imu_ready [where s = example_flying,
        THEN conjunct2, THEN conjunct2, THEN conjunct2, THEN conjunct2, THEN conjunct1]
    by (simp add: example_flying_fields)
  have e: "check_imu_ready 2000 example_connected = (False, example_connected)"
    using takeoff_imu_ready [where s = example_connected and now = 2000,
        THEN conjunct2, THEN conjunct2, THEN conjunct2, THEN conjunct2, THEN conjunct2,
        THEN conjunct1]
    by (simp add: example_connected_fields)
  from a b c d e show ?thesis
    by simp
qed

subsection \<open>The invariant of the flight state\<close>

lemma flags_step_same:
  "is_flying s' = is_flying s \<Longrightarrow> imu_ready s' = imu_ready s \<Longrightarrow> flags_step s s'"
  by (simp add: flags_step_def)

lemma flags_step_trans_same:
  "flags_step s s1 \<Longrightarrow> is_flying s' = is_flying s1 \<Longrightarrow> imu_ready s' = imu_ready s1
   \<Longrightarrow> flags_step s s'"
  by (auto simp: flags_step_def)

lemma play_beep_flags:
  "is_flying (play_beep fr d s) = is_flying s"
  "imu_ready (play_beep fr d s) = imu_ready s"
  by (simp_all add: play_beep_def)

lemma check_ready_beep_flags:
  "is_flying (check_ready_beep t s) = is_flying s"
  "imu_ready (check_ready_beep t s) = imu_ready s"
  by (simp_all add: check_ready_beep_def play_beep_flags)

lemma set_speed_multiplier_flags:
  "is_flying (set_speed_multiplier m s) = is_flying s"
  "imu_ready (set_speed_multiplier m s) = imu_ready s"
  by (simp_all add: set_speed_multiplier_def Let_def)

lemma clear_command_queue_flags:
  "is_flying (clear_command_queue s) = is_flying s"
  "imu_ready (clear_command_queue s) = imu_ready s"
  by (simp_all add: clear_command_queue_def play_beep_flags Let_def)

lemma can_execute_command_flags:
  "is_flying (snd (can_execute_command t s)) = is_flying s"
  "imu_ready (snd (can_execute_command t s)) = imu_ready s"
  by (simp_all add: can_execute_command_def)

lemma execute_command_flags:
  "is_flying (snd (execute_command c args t res s)) = is_flying s"
  "imu_ready (snd (execute_command c args t res s)) = imu_ready s"
  by (cases res; simp add: execute_command_def can_execute_command_def Let_def)+

lemma execute_rc_movement_flags:
  "is_flying (snd (execute_rc_movement c args res s)) = is_flying s"
  "imu_ready (snd (execute_rc_movement c args res s)) = imu_ready s"
  by (cases c; cases res; simp add: execute_rc_movement_def Let_def)+

lemma emergency_stop_flags:
  "is_flying (emergency_stop res s) = is_flying s"
  "imu_ready (emergency_stop res s) = imu_ready s"
  by (simp_all add: emergency_stop_def)

lemma start_rc_mode_flags:
  "is_flying (start_rc_mode s) = is_flying s"
  "imu_ready (start_rc_mode s) = imu_ready s"
  by (simp_all add: start_rc_mode_def Let_def)

lemma update_rc_control_flags:
  "is_flying (update_rc_control keys res s) = is_flying s"
  "imu_ready (update_rc_control keys res s) = imu_ready s"
  by (cases res; simp add: update_rc_control_def Let_def)+

lemma flip_forward_flags:
  "is_flying (snd (flip_forward t res s)) = is_flying s"
  "imu_ready (snd (flip_forward t res s)) = imu_ready s"
  by (simp_all add: flip_forward_def execute_command_flags Let_def case_prod_beta)

lemma check_imu_ready_step: "flags_step s (snd (check_imu_ready t s))"
  by (simp add: check_imu_ready_def flags_step_def Let_def)

lemma notify_imu_ready_step: "flags_step s (notify_imu_ready s)"
  by (simp add: notify_imu_ready_def flags_step_def)

lemma takeoff_step: "flags_step s (snd (takeoff t t' res s))"
  by (simp add: takeoff_def flags_step_def execute_command_flags Let_def case_prod_beta)

lemma land_step: "flags_step s (snd (land t res s))"
  by (simp add: land_def flags_step_def execute_command_flags Let_def case_prod_beta)

lemma execute_movement_command_step:
  "flags_step s (snd (execute_movement_command c args t t' res s))"
proof (cases "is_flying s \<and> fst (check_imu_ready t s)")
  case True
  then show ?thesis
    using check_imu_ready_step [of s t]
    by (auto simp: execute_movement_command_def Let_def case_prod_beta
          execute_command_flags elim: flags_step_trans_same)
next
  case False
  then show ?thesis
    using check_imu_ready_step [of s t]
    by (auto simp: execute_movement_command_def Let_def case_prod_beta
          execute_rc_movement_flags elim: flags_step_trans_same intro: flags_step_same)
qed

lemma movement_step: "flags_step s (snd (movement c m t t' res s))"
  using execute_movement_command_step [of s c "[m]" t t' res]
  by (simp add: movement_def flags_step_same)

lemma perform_step: "flags_step s (perform op s)"
proof (cases op)
  case (Op_connect ctor res b h f t)
  then show ?thesis by (simp add: flags_step_same connect_flags)
next
  case (Op_disconnect rc_res land_res end_res)
  then show ?thesis by (simp add: flags_step_same disconnect_flags)
next
  case (Op_update_telemetry b h f t)
  then show ?thesis by (simp add: flags_step_same update_telemetry_flags)
next
  case (Op_set_speed_multiplier m)
  then show ?thesis by (simp add: flags_step_same set_speed_multiplier_flags)
next
  case Op_clear_command_queue
  then show ?thesis by (simp add: flags_step_same clear_command_queue_flags)
next
  case (Op_play_beep f d)
  then show ?thesis by (simp add: flags_step_same play_beep_flags)
next
  case (Op_check_ready_beep t)
  then show ?thesis by (simp add: flags_step_same check_ready_beep_flags)
next
  case (Op_can_execute_command t)
  then show ?thesis by (simp add: flags_step_same can_execute_command_flags)
next
  case (Op_execute_command c args t res)
  then show ?thesis by (simp add: flags_step_same execute_command_flags)
next
  case (Op_check_imu_ready t)
  then show ?thesis by (simp add: check_imu_ready_step)
next
  case (Op_execute_movement_command c args t t' res)
  then show ?thesis by (simp add: execute_movement_command_step)
next
  case (Op_execute_rc_movement c args res)
  then show ?thesis by (simp add: flags_step_same execute_rc_movement_flags)
next
  case (Op_takeoff t t' res)
  then show ?thesis by (simp add: takeoff_step)
next
  case Op_notify_imu_ready
  then show ?thesis by (simp add: notify_imu_ready_step)
next
  case (Op_land t res)
  then show ?thesis by (simp add: land_step)
next
  case (Op_move_forward m t t' res)
  then show ?thesis by (simp add: move_forward_def movement_step)
next
  case (Op_move_back m t t' res)
  then show ?thesis by (simp add: move_back_def movement_step)
next
  case (Op_move_left m t t' res)
  then show ?thesis by (simp add: move_left_def movement_step)
next
  case (Op_move_right m t t' res)
  then show ?thesis by (simp add: move_right_def movement_step)
next
  case (Op_move_up m t t' res)
  then show ?thesis by (simp add: move_up_def movement_step)
next
  case (Op_move_down m t t' res)
  then show ?thesis by (simp add: move_down_def movement_step)
next
  case (Op_rotate_clockwise m t t' res)
  then show ?thesis by (simp add: rotate_clockwise_def movement_step)
next
  case (Op_rotate_counter_clockwise m t t' res)
  then show ?thesis by (simp add: rotate_counter_clockwise_def movement_step)
next
  case (Op_flip_forward t res)
  then show ?thesis by (simp add: flags_step_same flip_forward_flags)
next
  case (Op_emergency_stop res)
  then show ?thesis by (simp add: flags_step_same emergency_stop_flags)
next
  case Op_start_rc_mode
  then show ?thesis by (simp add: flags_step_same start_rc_mode_flags)
next
  case (Op_stop_rc_mode res)
  then show ?thesis by (simp add: flags_step_same stop_rc_mode_flags)
next
  case (Op_update_rc_control keys res)
  then show ?thesis by (simp add: flags_step_same update_rc_control_flags)
qed

lemma perform_all_invariant:
  "imu_invariant s \<Longrightarrow> imu_invariant (perform_all ops s)"
proof (induction ops arbitrary: s)
  case Nil
  then show ?case by (simp add: perform_all_def)
next
  case (Cons op ops)
  have "imu_invariant (perform op s)"
    using perform_step [of s op] Cons.prems
    by (auto simp: flags_step_def imu_invariant_def)
  then have "imu_invariant (perform_all ops (perform op s))"
    by (rule Cons.IH)
  then show ?case by (simp add: perform_all_def)
qed

text \<open>
  C4: every operation of the controller preserves the invariant that \<^verbatim>\<open>imu_ready\<close> is
  false whenever \<^verbatim>\<open>is_flying\<close> is false, so that it holds after every sequence of
  operations on a new controller; an operation sets \<^verbatim>\<open>imu_ready\<close> only while flying
  before and after; \<^verbatim>\<open>imu_ready\<close> is false after every operation that lands and after
  every operation that takes off, and after every takeoff attempted on the ground.
\<close>

theorem imu_invariant_preserved:
  "(imu_invariant s \<longrightarrow> imu_invariant (perform op s))
   \<and> (imu_ready (perform op s) \<and> \<not> imu_ready s \<longrightarrow> is_flying s \<and> is_flying (perform op s))
   \<and> (is_flying s \<and> \<not> is_flying (perform op s) \<longrightarrow> \<not> imu_ready (perform op s))
   \<and> (\<not> is_flying s \<and> is_flying (perform op s) \<longrightarrow> \<not> imu_ready (perform op s))
   \<and> (imu_invariant s \<and> \<not> is_flying s \<longrightarrow> \<not> imu_ready (snd (takeoff t t' res s)))
   \<and> imu_invariant (init a)
   \<and> imu_invariant (perform_all ops (init a))"
proof -
  have step: "flags_step s (perform op s)"
    by (rule perform_step)
  have inv: "imu_invariant s \<longrightarrow> imu_invariant (perform op s)"
    using step by (auto simp: flags_step_def imu_invariant_def)
  have set_flying: "imu_ready (perform op s) \<and> \<not> imu_ready s
      \<longrightarrow> is_flying s \<and> is_flying (perform op s)"
    using step by (auto simp: flags_step_def)
  have landing: "is_flying s \<and> \<not> is_flying (perform op s) \<longrightarrow> \<not> imu_ready (perform op s)"
    using step by (auto simp: flags_step_def)
  have taking_off: "\<not> is_flying s \<and> is_flying (perform op s) \<longrightarrow> \<not> imu_ready (perform op s)"
    using step by (auto simp: flags_step_def)
  have attempt: "imu_invariant s \<and> \<not> is_flying s \<longrightarrow> \<not> imu_ready (snd (takeoff t t' res s))"
    using takeoff_step [of s t t' res] by (auto simp: flags_step_def imu_invariant_def)
  have start: "imu_invariant (init a)"
    by (simp add: imu_invariant_def init_def)
  have reach: "imu_invariant (perform_all ops (init a))"
    using start by (rule perform_all_invariant)
  from inv set_flying landing taking_off attempt start reach show ?thesis
    by (intro conjI)
qed

lemma movement_eq:
  "tello s \<noteq> None \<Longrightarrow>
   snd (movement c m t t' res s) = snd (execute_movement_command c [m] t t' res s)"
  by (cases "tello s") (simp_all add: movement_def)

lemma execute_rc_movement_unconnected:
  "tello s = None \<or> connection_status s \<noteq> CONNECTED \<Longrightarrow>
   execute_rc_movement c args res s = (False, s)"
  by (auto simp: execute_rc_movement_def)

lemma example_pulsed_fields:
  "tello example_pulsed = Some Tello"
  "connection_status example_pulsed = CONNECTED"
  "last_command_time example_pulsed = 1000"
  "command_cooldown example_pulsed = 1 / 2"
  "is_flying example_pulsed = True"
  "imu_ready example_pulsed = False"
  "takeoff_time example_pulsed = 1005"
  "speed_multiplier example_pulsed = 1"
  "imu_stabilization_delay example_pulsed = 3"
  "link_calls example_pulsed = link_calls example_flying @ [Send_rc_control 0 50 0 0]"
  by (simp_all add: example_pulsed_def move_forward_def movement_def
        execute_movement_command_def check_imu_ready_def execute_rc_movement_def
        example_flying_fields Let_def)

lemma example_moved_fields:
  "tello example_moved = Some Tello"
  "connection_status example_moved = CONNECTED"
  "last_command_time example_moved = 10085 / 10"
  "command_cooldown example_moved = 1 / 2"
  "is_flying example_moved = True"
  "imu_ready example_moved = True"
  "takeoff_time example_moved = 1005"
  "speed_multiplier example_moved = 1"
  "imu_stabilization_delay example_moved = 3"
  by (simp_all add: example_moved_def move_forward_def movement_def
        execute_movement_command_def check_imu_ready_def execute_command_def
        can_execute_command_def example_pulsed_fields Let_def)

lemma example_error_fields:
  "tello example_error = Some Tello"
  "connection_status example_error = ERROR"
  "is_flying example_error = True"
  "imu_ready example_error = False"
  "takeoff_time example_error = 1005"
  "imu_stabilization_delay example_error = 3"
  by (simp_all add: example_error_def connect_def example_flying_fields Let_def)

theorem imu_invariant_preserved_witness:
  "imu_invariant example_flying
   \<and> is_flying (perform Op_notify_imu_ready example_flying)
   \<and> imu_ready (perform Op_notify_imu_ready example_flying)
   \<and> \<not> imu_ready (perform (Op_land 1010 Done) (perform Op_notify_imu_ready example_flying))
   \<and> imu_invariant
        (perform_all
           [Op_connect Done Done (Some 87) (Some 0) (Some 0) 1000, Op_takeoff 1000 1005 Done,
            Op_notify_imu_ready, Op_land 1010 Done] (init True))"
proof -
  have inv0: "imu_invariant example_connected"
    by (simp add: imu_invariant_def example_connected_fields)
  have a: "imu_invariant example_flying"
    using imu_invariant_preserved [where s = example_connected
        and op = "Op_takeoff 1000 1005 Done", THEN conjunct1] inv0
    by (simp add: example_flying_def)
  have ready: "imu_ready (perform Op_notify_imu_ready example_flying)"
    by (simp add: notify_imu_ready_def example_flying_fields)
  have b: "is_flying (perform Op_notify_imu_ready example_flying)"
    using imu_invariant_preserved [where s = example_flying and op = Op_notify_imu_ready,
        THEN conjunct2, THEN conjunct1] ready
    by (simp add: example_flying_fields)
  have grounded:
    "\<not> is_flying (perform (Op_land 1010 Done) (perform Op_notify_imu_ready example_flying))"
    by (simp add: land_def execute_command_def can_execute_command_def notify_imu_ready_def
          example_flying_fields Let_def)
  have c: "\<not> imu_ready (perform (Op_land 1010 Done)
                 (perform Op_notify_imu_ready example_flying))"
    using imu_invariant_preserved [where s = "perform Op_notify_imu_ready example_flying"
        and op = "Op_land 1010 Done", THEN conjunct2, THEN conjunct2, THEN conjunct1]
      b grounded
    by simp
  have d: "imu_invariant
        (perform_all
           [Op_connect Done Done (Some 87) (Some 0) (Some 0) 1000, Op_takeoff 1000 1005 Done,
            Op_notify_imu_ready, Op_land 1010 Done] (init True))"
    using imu_invariant_preserved [where a = True, THEN conjunct2, THEN conjunct2,
        THEN conjunct2, THEN conjunct2, THEN conjunct2, THEN conjunct2] .
  from a b ready c d show ?thesis
    by (intro conjI)
qed

subsection \<open>Movement dispatch\<close>

text \<open>
  C1, as the code has it: flying with \<^verbatim>\<open>imu_ready\<close> false and the stabilization delay
  not yet elapsed since \<^verbatim>\<open>takeoff_time\<close>, \<^verbatim>\<open>execute_movement_command\<close> routes the
  request to \<^verbatim>\<open>execute_rc_movement\<close>; with the link present and Connected that sends,
  for each of the eight movement primitives, exactly one pulse on the axis of the
  primitive at \<open>min (int (50 * multiplier)) 100\<close> and no discrete call, and without a
  Connected link it sends nothing and returns False. Flying with the delay elapsed, the
  call passes the primitive with the magnitude \<open>int (magnitude * multiplier)\<close> to
  \<^verbatim>\<open>execute_command\<close>, which calls it on the link when the link is present and Connected
  and the cooldown has elapsed. \<^verbatim>\<open>move_forward\<close> is that call for the forward
  primitive.
\<close>

theorem execute_movement_command_routing:
  "(is_flying s \<and> \<not> imu_ready s \<and> t_imu - takeoff_time s < imu_stabilization_delay s
      \<longrightarrow> execute_movement_command c args t_imu t_next res s
            = execute_rc_movement c args res
                (emit (Print (Msg_imu_stabilizing
                         (imu_stabilization_delay s - (t_next - takeoff_time s)))) s))
   \<and> (is_flying s \<and> \<not> imu_ready s \<and> t_imu - takeoff_time s < imu_stabilization_delay s
        \<and> is_movement c \<and> tello s \<noteq> None \<and> connection_status s = CONNECTED
      \<longrightarrow> link_calls (snd (execute_movement_command c args t_imu t_next res s))
            = link_calls s
                @ [send_vector (pulse_vector c (min (py_int (50 * speed_multiplier s)) 100))])
   \<and> (is_flying s \<and> \<not> imu_ready s \<and> t_imu - takeoff_time s < imu_stabilization_delay s
        \<and> (tello s = None \<or> connection_status s \<noteq> CONNECTED)
      \<longrightarrow> fst (execute_movement_command c args t_imu t_next res s) = False
          \<and> link_calls (snd (execute_movement_command c args t_imu t_next res s))
              = link_calls s)
   \<and> (is_flying s \<and> imu_stabilization_delay s \<le> t_imu - takeoff_time s
      \<longrightarrow> execute_movement_command c [magnitude] t_imu t_next res s
            = execute_command c [py_int (magnitude * speed_multiplier s)] t_next res
                (emit (Print (Msg_command (speed_multiplier s > 1) c
                                (py_int (magnitude * speed_multiplier s))))
                   (s\<lparr>imu_ready := True\<rparr>)))
   \<and> (is_flying s \<and> imu_stabilization_delay s \<le> t_imu - takeoff_time s
        \<and> tello s \<noteq> None \<and> connection_status s = CONNECTED
        \<and> command_cooldown s \<le> t_next - last_command_time s
      \<longrightarrow> link_calls (snd (execute_movement_command c [magnitude] t_imu t_next res s))
            = link_calls s @ [Command c [py_int (magnitude * speed_multiplier s)]])
   \<and> (tello s \<noteq> None
      \<longrightarrow> snd (move_forward magnitude t_imu t_next res s)
            = snd (execute_movement_command Tello_move_forward [magnitude] t_imu t_next res s))"
proof -
  have route: "is_flying s \<and> \<not> imu_ready s
      \<and> t_imu - takeoff_time s < imu_stabilization_delay s
      \<longrightarrow> execute_movement_command c args t_imu t_next res s
            = execute_rc_movement c args res
                (emit (Print (Msg_imu_stabilizing
                         (imu_stabilization_delay s - (t_next - takeoff_time s)))) s)"
    by (simp add: execute_movement_fallback)
  have pulse: "is_flying s \<and> \<not> imu_ready s
        \<and> t_imu - takeoff_time s < imu_stabilization_delay s
        \<and> is_movement c \<and> tello s \<noteq> None \<and> connection_status s = CONNECTED
      \<longrightarrow> link_calls (snd (execute_movement_command c args t_imu t_next res s))
            = link_calls s
                @ [send_vector (pulse_vector c (min (py_int (50 * speed_multiplier s)) 100))]"
    by (simp add: execute_movement_fallback is_movement_pulse)
  have unsent: "is_flying s \<and> \<not> imu_ready s
        \<and> t_imu - takeoff_time s < imu_stabilization_delay s
        \<and> (tello s = None \<or> connection_status s \<noteq> CONNECTED)
      \<longrightarrow> fst (execute_movement_command c args t_imu t_next res s) = False
          \<and> link_calls (snd (execute_movement_command c args t_imu t_next res s))
              = link_calls s"
    by (auto simp: execute_movement_fallback execute_rc_movement_unconnected)
  have discrete: "is_flying s \<and> imu_stabilization_delay s \<le> t_imu - takeoff_time s
      \<longrightarrow> execute_movement_command c [magnitude] t_imu t_next res s
            = execute_command c [py_int (magnitude * speed_multiplier s)] t_next res
                (emit (Print (Msg_command (speed_multiplier s > 1) c
                                (py_int (magnitude * speed_multiplier s))))
                   (s\<lparr>imu_ready := True\<rparr>))"
    by (simp add: execute_movement_discrete)
  have dispatch: "is_flying s \<and> imu_stabilization_delay s \<le> t_imu - takeoff_time s
        \<and> tello s \<noteq> None \<and> connection_status s = CONNECTED
        \<and> command_cooldown s \<le> t_next - last_command_time s
      \<longrightarrow> link_calls (snd (execute_movement_command c [magnitude] t_imu t_next res s))
            = link_calls s @ [Command c [py_int (magnitude * speed_multiplier s)]]"
    by (simp add: execute_movement_discrete execute_command_dispatch)
  have wrapper: "tello s \<noteq> None
      \<longrightarrow> snd (move_forward magnitude t_imu t_next res s)
            = snd (execute_movement_command Tello_move_forward [magnitude] t_imu t_next res s)"
    by (simp add: move_forward_def movement_eq)
  show ?thesis
    by (intro conjI route pulse unsent discrete dispatch wrapper)
qed

theorem execute_movement_command_routing_witness:
  "link_calls example_pulsed = link_calls example_flying @ [Send_rc_control 0 50 0 0]
   \<and> link_calls example_moved = link_calls example_pulsed @ [Command Tello_move_forward [30]]"
proof -
  note early = execute_movement_command_routing [where s = example_flying
      and c = Tello_move_forward and args = "[30]" and t_imu = "10051 / 10"
      and t_next = "10051 / 10" and res = Done and magnitude = 30]
  note late = execute_movement_command_routing [where s = example_pulsed
      and c = Tello_move_forward and args = "[30]" and t_imu = "10085 / 10"
      and t_next = "10085 / 10" and res = Done and magnitude = 30]
  have a1: "link_calls (snd (execute_movement_command Tello_move_forward [30] (10051 / 10)
                (10051 / 10) Done example_flying))
              = link_calls example_flying @ [Send_rc_control 0 50 0 0]"
    using early [THEN conjunct2, THEN conjunct1]
    by (simp add: example_flying_fields send_vector_def zero_rc_def)
  have a2: "example_pulsed = snd (execute_movement_command Tello_move_forward [30]
                (10051 / 10) (10051 / 10) Done example_flying)"
    using early [THEN conjunct2, THEN conjunct2, THEN conjunct2, THEN conjunct2, THEN conjunct2]
    by (simp add: example_flying_fields example_pulsed_def)
  have b1: "link_calls (snd (execute_movement_command Tello_move_forward [30] (10085 / 10)
                (10085 / 10) Done example_pulsed))
              = link_calls example_pulsed @ [Command Tello_move_forward [30]]"
    using late [THEN conjunct2, THEN conjunct2, THEN conjunct2, THEN conjunct2, THEN conjunct1]
    by (simp add: example_pulsed_fields)
  have b2: "example_moved = snd (execute_movement_command Tello_move_forward [30]
                (10085 / 10) (10085 / 10) Done example_pulsed)"
    using late [THEN conjunct2, THEN conjunct2, THEN conjunct2, THEN conjunct2, THEN conjunct2]
    by (simp add: example_pulsed_fields example_moved_def)
  from a1 a2 b1 b2 show ?thesis
    by simp
qed

theorem execute_movement_command_routing_counterexample:
  "is_flying example_stale
   \<and> 1009 - takeoff_time example_stale < imu_stabilization_delay example_stale
   \<and> link_calls (snd (execute_movement_command Tello_move_forward [30] 1009 1009 Done
                        example_stale))
       = link_calls example_stale @ [Command Tello_move_forward [30]]
   \<and> is_flying example_error
   \<and> 1006 - takeoff_time example_error < imu_stabilization_delay example_error
   \<and> link_calls (snd (execute_movement_command Tello_move_forward [30] 1006 1006 Done
                        example_error))
       = link_calls example_error
   \<and> is_flying example_moved
   \<and> imu_stabilization_delay example_moved \<le> 10087 / 10 - takeoff_time example_moved
   \<and> link_calls (snd (execute_movement_command Tello_move_forward [30] (10087 / 10)
                        (10087 / 10) Done example_moved))
       = link_calls example_moved"
proof -
  have stale: "link_calls (snd (execute_movement_command Tello_move_forward [30] 1009 1009 Done
                        example_stale))
       = link_calls example_stale @ [Command Tello_move_forward [30]]"
    by (simp add: execute_movement_command_def check_imu_ready_def execute_command_def
          can_execute_command_def example_stale_fields Let_def)
  have unconnected: "link_calls (snd (execute_movement_command Tello_move_forward [30] 1006 1006
                        Done example_error))
       = link_calls example_error"
    by (simp add: execute_movement_command_def check_imu_ready_def execute_rc_movement_def
          example_error_fields Let_def)
  have throttled: "link_calls (snd (execute_movement_command Tello_move_forward [30]
                        (10087 / 10) (10087 / 10) Done example_moved))
       = link_calls example_moved"
    by (simp add: execute_movement_command_def check_imu_ready_def execute_command_def
          can_execute_command_def example_moved_fields Let_def)
  from stale unconnected throttled show ?thesis
    by (simp add: example_stale_fields example_error_fields example_moved_fields)
qed

end
